theory Spec2Isabelle
  imports Main "HOL-Library.Word" "HOL-Library.AList"
begin

section \<open>Domain: the Todo entity and its validation (internal/domain/domain.go)\<close>

text \<open>
  Go's \<open>int\<close> is a 64-bit two's complement integer on the platforms the service is built for;
  it is modelled as a 64-bit word. Addition wraps, and the comparisons of the source are the
  signed ones (\<open>\<le>s\<close>, \<open><s\<close>).
\<close>

type_synonym int64 = "64 word"

record Todo =
  ID :: int64
  Title :: string
  Description :: string
  Completed :: bool

text \<open>
  Go error values. The three sentinels of the domain package are compared by identity
  (\<open>errors.Is\<close>); an error made by \<open>errors.New\<close> is a fresh value carrying its message and is
  never identical to a sentinel. \<open>ErrSyntax\<close> and \<open>ErrRange\<close> are the two sentinels of
  \<open>strconv\<close>.
\<close>

datatype error =
    ErrTodoNotFound
  | ErrTodoAlreadyExists
  | ErrInvalidTodoData
  | errors_New string
  | ErrSyntax
  | ErrRange

fun Error :: "error \<Rightarrow> string" where
  "Error ErrTodoNotFound = ''todo not found''"
| "Error ErrTodoAlreadyExists = ''todo with this ID already exists''"
| "Error ErrInvalidTodoData = ''invalid todo data''"
| "Error (errors_New msg) = msg"
| "Error ErrSyntax = ''invalid syntax''"
| "Error ErrRange = ''value out of range''"

definition Validate :: "Todo \<Rightarrow> error option" where
  "Validate t = (if Title t = [] then Some (errors_New ''title cannot be empty'') else None)"

section \<open>Storage engine (internal/repository/repository.go)\<close>

text \<open>
  The repository holds a map from ids to records and the allocator counter. The map is an
  association list with distinct keys, read through \<open>map_of\<close>; the lock is not modelled:
  every operation runs under it from start to end, so each is one atomic step on the state.
  Records are stored by pointer in the source; every handler decodes into a fresh record, so
  the model stores values, and \<open>Create\<close>, which writes the assigned id through its pointer
  argument, returns the record as the caller sees it afterwards. Go leaves the order in
  which \<open>GetAll\<close> walks the map open; the model returns the records in the order of the list,
  and no statement below depends on the order.
\<close>

record InMemoryTodoRepository =
  todos :: "(int64 \<times> Todo) list"
  nextID :: int64

definition NewInMemoryTodoRepository :: InMemoryTodoRepository where
  "NewInMemoryTodoRepository = \<lparr>todos = [], nextID = 1\<rparr>"

text \<open>A Go slice is \<open>nil\<close> or a sequence; \<open>None\<close> stands for the nil slice.\<close>

type_synonym 'a slice = "'a list option"

definition Create ::
  "Todo \<Rightarrow> InMemoryTodoRepository \<Rightarrow> (error option \<times> Todo) \<times> InMemoryTodoRepository" where
  "Create todo r =
     (if ID todo = 0 then
        (let todo' = todo\<lparr>ID := nextID r\<rparr>;
             r' = r\<lparr>nextID := nextID r + 1\<rparr>
         in ((None, todo'), r'\<lparr>todos := AList.update (ID todo') todo' (todos r')\<rparr>))
      else if map_of (todos r) (ID todo) \<noteq> None then ((Some ErrTodoAlreadyExists, todo), r)
      else
        (let r' = (if nextID r \<le>s ID todo then r\<lparr>nextID := ID todo + 1\<rparr> else r)
         in ((None, todo), r'\<lparr>todos := AList.update (ID todo) todo (todos r')\<rparr>)))"

definition GetAll :: "InMemoryTodoRepository \<Rightarrow> error + Todo slice" where
  "GetAll r = Inr (Some (map snd (todos r)))"

definition GetByID :: "int64 \<Rightarrow> InMemoryTodoRepository \<Rightarrow> error + Todo" where
  "GetByID i r = (case map_of (todos r) i of None \<Rightarrow> Inl ErrTodoNotFound | Some todo \<Rightarrow> Inr todo)"

definition Update :: "Todo \<Rightarrow> InMemoryTodoRepository \<Rightarrow> error option \<times> InMemoryTodoRepository" where
  "Update todo r =
     (if map_of (todos r) (ID todo) = None then (Some ErrTodoNotFound, r)
      else (None, r\<lparr>todos := AList.update (ID todo) todo (todos r)\<rparr>))"

definition Delete :: "int64 \<Rightarrow> InMemoryTodoRepository \<Rightarrow> error option \<times> InMemoryTodoRepository" where
  "Delete i r =
     (if map_of (todos r) i = None then (Some ErrTodoNotFound, r)
      else (None, r\<lparr>todos := AList.delete i (todos r)\<rparr>))"

definition Exists :: "int64 \<Rightarrow> InMemoryTodoRepository \<Rightarrow> bool" where
  "Exists i r = (map_of (todos r) i \<noteq> None)"


text \<open>
  The mutating calls a client can make, a run of such calls, and the ids handed out by the
  successful \<open>Create\<close> calls of a run, in call order; the flag tells whether the id was
  auto-assigned (the input carried id 0). The reading operations leave the state as it is.
\<close>

datatype op = OpCreate Todo | OpUpdate Todo | OpDelete int64

fun step :: "op \<Rightarrow> InMemoryTodoRepository \<Rightarrow> InMemoryTodoRepository" where
  "step (OpCreate todo) r = snd (Create todo r)"
| "step (OpUpdate todo) r = snd (Update todo r)"
| "step (OpDelete i) r = snd (Delete i r)"

fun run :: "op list \<Rightarrow> InMemoryTodoRepository \<Rightarrow> InMemoryTodoRepository" where
  "run [] r = r"
| "run (x # xs) r = run xs (step x r)"

fun assigned1 :: "op \<Rightarrow> InMemoryTodoRepository \<Rightarrow> (bool \<times> int64) list" where
  "assigned1 (OpCreate todo) r =
     (case Create todo r of
        ((None, todo'), r') \<Rightarrow> [(ID todo = 0, ID todo')]
      | ((Some err, todo'), r') \<Rightarrow> [])"
| "assigned1 (OpUpdate todo) r = []"
| "assigned1 (OpDelete i) r = []"

fun assigned :: "op list \<Rightarrow> InMemoryTodoRepository \<Rightarrow> (bool \<times> int64) list" where
  "assigned [] r = []"
| "assigned (x # xs) r = assigned1 x r @ assigned xs (step x r)"

section \<open>Operation layer (internal/usecase/usecase.go)\<close>

text \<open>
  The use case depends on the repository through the interface \<open>domain.TodoRepository\<close> only.
  The interface is a record of operations on an arbitrary state; every method may change
  that state, so a call that is not made is visible in the result.
\<close>

record 's TodoRepository =
  repo_Create :: "Todo \<Rightarrow> 's \<Rightarrow> (error option \<times> Todo) \<times> 's"
  repo_GetAll :: "'s \<Rightarrow> (error + Todo slice) \<times> 's"
  repo_GetByID :: "int64 \<Rightarrow> 's \<Rightarrow> (error + Todo) \<times> 's"
  repo_Update :: "Todo \<Rightarrow> 's \<Rightarrow> error option \<times> 's"
  repo_Delete :: "int64 \<Rightarrow> 's \<Rightarrow> error option \<times> 's"
  repo_Exists :: "int64 \<Rightarrow> 's \<Rightarrow> bool \<times> 's"

definition InMemory :: "InMemoryTodoRepository TodoRepository" where
  "InMemory =
     \<lparr>repo_Create = Create,
      repo_GetAll = (\<lambda>r. (GetAll r, r)),
      repo_GetByID = (\<lambda>i r. (GetByID i r, r)),
      repo_Update = Update,
      repo_Delete = Delete,
      repo_Exists = (\<lambda>i r. (Exists i r, r))\<rparr>"

definition TodoUseCase_CreateTodo ::
  "'s TodoRepository \<Rightarrow> Todo \<Rightarrow> 's \<Rightarrow> (error + Todo) \<times> 's" where
  "TodoUseCase_CreateTodo repo todo s =
     (case Validate todo of
        Some err \<Rightarrow> (Inl err, s)
      | None \<Rightarrow>
          (case repo_Create repo todo s of
             ((Some err, todo'), s') \<Rightarrow> (Inl err, s')
           | ((None, todo'), s') \<Rightarrow> (Inr todo', s')))"

definition TodoUseCase_GetAllTodos :: "'s TodoRepository \<Rightarrow> 's \<Rightarrow> (error + Todo slice) \<times> 's" where
  "TodoUseCase_GetAllTodos repo s = repo_GetAll repo s"

definition TodoUseCase_GetTodoByID ::
  "'s TodoRepository \<Rightarrow> int64 \<Rightarrow> 's \<Rightarrow> (error + Todo) \<times> 's" where
  "TodoUseCase_GetTodoByID repo i s = repo_GetByID repo i s"

definition TodoUseCase_UpdateTodo ::
  "'s TodoRepository \<Rightarrow> int64 \<Rightarrow> Todo \<Rightarrow> 's \<Rightarrow> (error + Todo) \<times> 's" where
  "TodoUseCase_UpdateTodo repo i todo s =
     (case Validate todo of
        Some err \<Rightarrow> (Inl err, s)
      | None \<Rightarrow>
          (case repo_Exists repo i s of
             (False, s1) \<Rightarrow> (Inl ErrTodoNotFound, s1)
           | (True, s1) \<Rightarrow>
               (let todo' = todo\<lparr>ID := i\<rparr>
                in case repo_Update repo todo' s1 of
                     (Some err, s2) \<Rightarrow> (Inl err, s2)
                   | (None, s2) \<Rightarrow> (Inr todo', s2))))"

definition TodoUseCase_DeleteTodo ::
  "'s TodoRepository \<Rightarrow> int64 \<Rightarrow> 's \<Rightarrow> error option \<times> 's" where
  "TodoUseCase_DeleteTodo repo i s = repo_Delete repo i s"

section \<open>Handlers (internal/http/handler/todo-handler.go)\<close>

subsection \<open>The standard-library functions the handlers call\<close>

text \<open>
  \<open>strings.Trim s cutset\<close> removes the leading and the trailing characters of \<open>s\<close> that occur
  in \<open>cutset\<close>. \<open>strings.Split\<close> is modelled for a separator of one byte, which is how the
  handler calls it: the pieces between the separators, one piece for a string without any.
\<close>

definition strings_Trim :: "string \<Rightarrow> string \<Rightarrow> string" where
  "strings_Trim s cutset =
     rev (dropWhile (\<lambda>c. c \<in> set cutset) (rev (dropWhile (\<lambda>c. c \<in> set cutset) s)))"

fun strings_Split :: "string \<Rightarrow> char \<Rightarrow> string list" where
  "strings_Split [] sep = [[]]"
| "strings_Split (c # cs) sep =
     (if c = sep then [] # strings_Split cs sep
      else (case strings_Split cs sep of
              [] \<Rightarrow> [[c]]
            | p # ps \<Rightarrow> (c # p) # ps))"

text \<open>
  \<open>strconv.Atoi\<close> for a 64-bit \<open>int\<close>, in base 10. \<open>ParseUint\<close> reads the digits from left to
  right: the first byte that is not a digit is a syntax error, and a value that no longer
  fits 64 unsigned bits is a range error, whichever comes first. \<open>ParseInt\<close> takes an
  optional sign off, parses the rest and checks the signed range. \<open>Atoi\<close> has a fast path for
  short strings, which computes the same result. Of the \<open>NumError\<close> that these functions
  return the model keeps the cause, \<open>strconv.ErrSyntax\<close> or \<open>strconv.ErrRange\<close>.
\<close>

definition isDigit :: "char \<Rightarrow> bool" where
  "isDigit c = (48 \<le> (of_char c :: int) \<and> (of_char c :: int) \<le> 57)"

fun ParseUint_digits :: "string \<Rightarrow> int \<Rightarrow> error + int" where
  "ParseUint_digits [] n = Inr n"
| "ParseUint_digits (c # cs) n =
     (if \<not> isDigit c then Inl ErrSyntax
      else if 2 ^ 64 \<le> n * 10 + ((of_char c :: int) - 48) then Inl ErrRange
      else ParseUint_digits cs (n * 10 + ((of_char c :: int) - 48)))"

definition strconv_ParseUint :: "string \<Rightarrow> error + int" where
  "strconv_ParseUint s = (if s = [] then Inl ErrSyntax else ParseUint_digits s 0)"

definition strconv_ParseInt :: "string \<Rightarrow> error + int64" where
  "strconv_ParseInt s =
     (case s of
        [] \<Rightarrow> Inl ErrSyntax
      | c # cs \<Rightarrow>
          (let neg = (c = CHR ''-'');
               ds = (if c = CHR ''+'' \<or> c = CHR ''-'' then cs else s)
           in case strconv_ParseUint ds of
                Inl err \<Rightarrow> Inl err
              | Inr un \<Rightarrow>
                  if \<not> neg \<and> 2 ^ 63 \<le> un then Inl ErrRange
                  else if neg \<and> 2 ^ 63 < un then Inl ErrRange
                  else Inr (if neg then - of_int un else of_int un)))"

definition strconv_Atoi :: "string \<Rightarrow> error + int64" where
  "strconv_Atoi s = strconv_ParseInt s"

text \<open>
  The decimal rendering of an \<open>int\<close>, as the \<open>%d\<close> verb of \<open>fmt\<close> writes it; the tests of the
  handlers build the paths of the item route with it.
\<close>

function decimalDigits :: "int \<Rightarrow> string" where
  "decimalDigits k =
     (if k < 10 then [char_of (48 + k)]
      else decimalDigits (k div 10) @ [char_of (48 + k mod 10)])"
  by pat_completeness auto
termination
  by (relation "measure nat") auto

definition Itoa :: "int64 \<Rightarrow> string" where
  "Itoa n = (if sint n < 0 then CHR ''-'' # decimalDigits (- sint n) else decimalDigits (sint n))"

text \<open>
  \<open>encoding/json\<close> on the three payloads the handlers write: a record, a slice of records
  (the nil slice is written as \<open>null\<close>, an empty one as \<open>[]\<close>) and a map of strings.
\<close>

datatype json =
    JNull
  | JBool bool
  | JNumber int
  | JString string
  | JArray "json list"
  | JObject "(string \<times> json) list"

datatype payload = PTodo Todo | PTodos "Todo slice" | PMap "(string \<times> string) list"

definition Todo_json :: "Todo \<Rightarrow> json" where
  "Todo_json t =
     JObject [(''id'', JNumber (sint (ID t))), (''title'', JString (Title t)),
              (''description'', JString (Description t)), (''completed'', JBool (Completed t))]"

fun json_Encode :: "payload \<Rightarrow> json" where
  "json_Encode (PTodo t) = Todo_json t"
| "json_Encode (PTodos None) = JNull"
| "json_Encode (PTodos (Some ts)) = JArray (map Todo_json ts)"
| "json_Encode (PMap kvs) = JObject (map (\<lambda>(k, v). (k, JString v)) kvs)"

subsection \<open>Requests, responses and the handlers\<close>

text \<open>
  A request is its method, the path of its URL and its body. Decoding the body is the work
  of \<open>json.Decoder\<close>; the handlers take it as the parameter \<open>dec\<close>, which gives the decoded
  record or the decoder's error. A response is the status code, the content type and the
  body written, if any.
\<close>

record Request =
  Method :: string
  Path :: string
  Body :: string

record Response =
  StatusCode :: nat
  ContentType :: "string option"
  Written :: "json option"

abbreviation StatusOK :: nat where "StatusOK \<equiv> 200"
abbreviation StatusCreated :: nat where "StatusCreated \<equiv> 201"
abbreviation StatusNoContent :: nat where "StatusNoContent \<equiv> 204"
abbreviation StatusBadRequest :: nat where "StatusBadRequest \<equiv> 400"
abbreviation StatusNotFound :: nat where "StatusNotFound \<equiv> 404"
abbreviation StatusMethodNotAllowed :: nat where "StatusMethodNotAllowed \<equiv> 405"
abbreviation StatusConflict :: nat where "StatusConflict \<equiv> 409"
abbreviation StatusInternalServerError :: nat where "StatusInternalServerError \<equiv> 500"

definition respondWithJSON :: "nat \<Rightarrow> payload \<Rightarrow> Response" where
  "respondWithJSON code p =
     \<lparr>StatusCode = code, ContentType = Some ''application/json'', Written = Some (json_Encode p)\<rparr>"

definition respondWithError :: "nat \<Rightarrow> string \<Rightarrow> Response" where
  "respondWithError code message = respondWithJSON code (PMap [(''error'', message)])"

definition extractIDFromPath :: "string \<Rightarrow> error + int64" where
  "extractIDFromPath path =
     (let parts = strings_Split (strings_Trim path ''/'') (CHR ''/'')
      in if length parts < 2 then Inl (errors_New ''invalid path'')
         else strconv_Atoi (parts ! 1))"

definition TodoHandler_CreateTodo ::
  "(string \<Rightarrow> error + Todo) \<Rightarrow> 's TodoRepository \<Rightarrow> Request \<Rightarrow> 's \<Rightarrow> Response \<times> 's" where
  "TodoHandler_CreateTodo dec repo req s =
     (case dec (Body req) of
        Inl err \<Rightarrow> (respondWithError StatusBadRequest ''Invalid request body'', s)
      | Inr todo \<Rightarrow>
          (case TodoUseCase_CreateTodo repo todo s of
             (Inl err, s') \<Rightarrow>
               (if err = ErrTodoAlreadyExists then (respondWithError StatusConflict (Error err), s')
                else (respondWithError StatusBadRequest (Error err), s'))
           | (Inr createdTodo, s') \<Rightarrow> (respondWithJSON StatusCreated (PTodo createdTodo), s')))"

definition TodoHandler_GetAllTodos :: "'s TodoRepository \<Rightarrow> Request \<Rightarrow> 's \<Rightarrow> Response \<times> 's" where
  "TodoHandler_GetAllTodos repo req s =
     (case TodoUseCase_GetAllTodos repo s of
        (Inl err, s') \<Rightarrow> (respondWithError StatusInternalServerError ''Failed to fetch todos'', s')
      | (Inr ts, s') \<Rightarrow> (respondWithJSON StatusOK (PTodos ts), s'))"

definition TodoHandler_GetTodoByID ::
  "'s TodoRepository \<Rightarrow> Request \<Rightarrow> int64 \<Rightarrow> 's \<Rightarrow> Response \<times> 's" where
  "TodoHandler_GetTodoByID repo req i s =
     (case TodoUseCase_GetTodoByID repo i s of
        (Inl err, s') \<Rightarrow>
          (if err = ErrTodoNotFound then (respondWithError StatusNotFound ''Todo not found'', s')
           else (respondWithError StatusInternalServerError ''Failed to fetch todo'', s'))
      | (Inr todo, s') \<Rightarrow> (respondWithJSON StatusOK (PTodo todo), s'))"

definition TodoHandler_UpdateTodo ::
  "(string \<Rightarrow> error + Todo) \<Rightarrow> 's TodoRepository \<Rightarrow> Request \<Rightarrow> int64 \<Rightarrow> 's \<Rightarrow> Response \<times> 's" where
  "TodoHandler_UpdateTodo dec repo req i s =
     (case dec (Body req) of
        Inl err \<Rightarrow> (respondWithError StatusBadRequest ''Invalid request body'', s)
      | Inr todo \<Rightarrow>
          (case TodoUseCase_UpdateTodo repo i todo s of
             (Inl err, s') \<Rightarrow>
               (if err = ErrTodoNotFound
                then (respondWithError StatusNotFound ''Todo not found'', s')
                else (respondWithError StatusBadRequest (Error err), s'))
           | (Inr updatedTodo, s') \<Rightarrow> (respondWithJSON StatusOK (PTodo updatedTodo), s')))"

definition TodoHandler_DeleteTodo ::
  "'s TodoRepository \<Rightarrow> Request \<Rightarrow> int64 \<Rightarrow> 's \<Rightarrow> Response \<times> 's" where
  "TodoHandler_DeleteTodo repo req i s =
     (case TodoUseCase_DeleteTodo repo i s of
        (Some err, s') \<Rightarrow>
          (if err = ErrTodoNotFound then (respondWithError StatusNotFound ''Todo not found'', s')
           else (respondWithError StatusInternalServerError ''Failed to delete todo'', s'))
      | (None, s') \<Rightarrow> (\<lparr>StatusCode = StatusNoContent, ContentType = None, Written = None\<rparr>, s'))"

definition HandleTodos ::
  "(string \<Rightarrow> error + Todo) \<Rightarrow> 's TodoRepository \<Rightarrow> Request \<Rightarrow> 's \<Rightarrow> Response \<times> 's" where
  "HandleTodos dec repo req s =
     (if Method req = ''POST'' then TodoHandler_CreateTodo dec repo req s
      else if Method req = ''GET'' then TodoHandler_GetAllTodos repo req s
      else (respondWithError StatusMethodNotAllowed ''Method not allowed'', s))"

definition HandleTodoByID ::
  "(string \<Rightarrow> error + Todo) \<Rightarrow> 's TodoRepository \<Rightarrow> Request \<Rightarrow> 's \<Rightarrow> Response \<times> 's" where
  "HandleTodoByID dec repo req s =
     (case extractIDFromPath (Path req) of
        Inl err \<Rightarrow> (respondWithError StatusBadRequest ''Invalid todo ID'', s)
      | Inr i \<Rightarrow>
          (if Method req = ''GET'' then TodoHandler_GetTodoByID repo req i s
           else if Method req = ''PUT'' then TodoHandler_UpdateTodo dec repo req i s
           else if Method req = ''DELETE'' then TodoHandler_DeleteTodo repo req i s
           else (respondWithError StatusMethodNotAllowed ''Method not allowed'', s)))"


section \<open>Predicates of the statements\<close>

text \<open>The largest value of a 64-bit \<open>int\<close>; adding 1 to it wraps to the smallest one.\<close>

definition MaxInt64 :: int64 where
  "MaxInt64 = 0x7FFFFFFFFFFFFFFF"

text \<open>Every id in the store lies below the allocator counter.\<close>

definition below_next :: "InMemoryTodoRepository \<Rightarrow> bool" where
  "below_next r = (\<forall>k \<in> fst ` set (todos r). k <s nextID r)"

text \<open>
  \<open>wraps t r\<close>: the increment that \<open>Create t\<close> performs on \<open>r\<close> overflows, that is, the counter
  is at \<open>MaxInt64\<close> when an id is auto-assigned, or the caller supplies the free id
  \<open>MaxInt64\<close>. \<open>no_wrap\<close>: no call of a run overflows.
\<close>

definition wraps :: "Todo \<Rightarrow> InMemoryTodoRepository \<Rightarrow> bool" where
  "wraps t r = (if ID t = 0 then nextID r = MaxInt64 else ID t = MaxInt64 \<and> \<not> Exists (ID t) r)"

fun wraps_op :: "op \<Rightarrow> InMemoryTodoRepository \<Rightarrow> bool" where
  "wraps_op (OpCreate t) r = wraps t r"
| "wraps_op (OpUpdate t) r = False"
| "wraps_op (OpDelete i) r = False"

fun no_wrap :: "op list \<Rightarrow> InMemoryTodoRepository \<Rightarrow> bool" where
  "no_wrap [] r = True"
| "no_wrap (x # xs) r = (\<not> wraps_op x r \<and> no_wrap xs (step x r))"

text \<open>
  In a list of assigned ids, every auto-assigned id is greater than every id assigned before
  it.
\<close>

fun later_autos_above :: "(bool \<times> int64) list \<Rightarrow> bool" where
  "later_autos_above [] = True"
| "later_autos_above (e # rest) =
     ((\<forall>f \<in> set rest. fst f \<longrightarrow> snd e <s snd f) \<and> later_autos_above rest)"

fun is_create :: "op \<Rightarrow> bool" where
  "is_create (OpCreate t) = True"
| "is_create (OpUpdate t) = False"
| "is_create (OpDelete i) = False"

text \<open>
  The invariant of the store: keys are distinct, every record carries the id it is stored
  under, every stored id is positive, and so is the allocator counter.
\<close>

definition store_inv :: "InMemoryTodoRepository \<Rightarrow> bool" where
  "store_inv r =
     (distinct (map fst (todos r))
      \<and> (\<forall>e \<in> set (todos r). ID (snd e) = fst e \<and> 0 <s fst e)
      \<and> 0 <s nextID r)"

text \<open>The number that a string of decimal digits denotes.\<close>

definition digitsValue :: "string \<Rightarrow> int" where
  "digitsValue ds = foldl (\<lambda>n c. n * 10 + ((of_char c :: int) - 48)) 0 ds"

text \<open>
  A record as the tests build it, \<open>domain.Todo{ID: i, Title: title}\<close>: the fields left out
  have their zero values.
\<close>

definition Todo_of :: "int64 \<Rightarrow> string \<Rightarrow> Todo" where
  [simp]: "Todo_of i title =
     \<lparr>ID = i, Title = title, Description = [], Completed = False\<rparr>"

text \<open>
  Values for the examples: a decoder that accepts two bodies, one giving a record with id 5
  and a title, the other a record without title, and rejects every other body; and a store
  holding one record, at id 5.
\<close>

definition dec0 :: "string \<Rightarrow> error + Todo" where
  "dec0 b =
     (if b = ''valid5'' then Inr (Todo_of 5 ''x'')
      else if b = ''{}'' then Inr (Todo_of 0 [])
      else Inl (errors_New ''invalid character''))"

definition r5 :: InMemoryTodoRepository where
  "r5 = \<lparr>todos = [(5, Todo_of 5 ''a'')], nextID = 6\<rparr>"

section \<open>Basic facts about the storage engine\<close>

lemma sint_MaxInt64: "sint MaxInt64 = 2 ^ 63 - 1"
  by (simp add: MaxInt64_def)

lemma sint_succ:
  assumes "x \<noteq> MaxInt64"
  shows "sint (x + 1 :: int64) = sint x + 1"
proof -
  have "sint x \<noteq> sint MaxInt64"
    using assms signed_word_eqI [of x MaxInt64] by blast
  hence ne: "sint x \<noteq> 2 ^ 63 - 1" by (simp add: sint_MaxInt64)
  have lo: "- (2 ^ 63) \<le> sint x" using sint_ge [of x] by simp
  have hi: "sint x < 2 ^ 63" using sint_lt [of x] by simp
  have "sint (x + 1) = signed_take_bit 63 (sint x + 1)"
    by (simp add: sint_word_add)
  also have "\<dots> = sint x + 1"
    using lo hi ne by (intro signed_take_bit_int_eq_self) auto
  finally show ?thesis .
qed

lemma Create_auto:
  "ID t = 0 \<Longrightarrow> Create t r =
     ((None, t\<lparr>ID := nextID r\<rparr>),
      \<lparr>todos = AList.update (nextID r) (t\<lparr>ID := nextID r\<rparr>) (todos r), nextID = nextID r + 1\<rparr>)"
  by (simp add: Create_def Let_def)

lemma Create_occupied:
  "ID t \<noteq> 0 \<Longrightarrow> Exists (ID t) r \<Longrightarrow> Create t r = ((Some ErrTodoAlreadyExists, t), r)"
  by (simp add: Create_def Exists_def)

lemma Create_supplied:
  "ID t \<noteq> 0 \<Longrightarrow> \<not> Exists (ID t) r \<Longrightarrow> Create t r =
     ((None, t),
      \<lparr>todos = AList.update (ID t) t (todos r),
       nextID = (if nextID r \<le>s ID t then ID t + 1 else nextID r)\<rparr>)"
  by (simp add: Create_def Exists_def Let_def)

lemma Exists_keys: "Exists i r = (i \<in> fst ` set (todos r))"
  by (simp add: Exists_def map_of_eq_None_iff)

lemma keys_update: "fst ` set (AList.update k v al) = insert k (fst ` set al)"
proof -
  have "set (map fst (AList.update k v al)) = insert k (set (map fst al))"
    by (auto simp: update_keys)
  thus ?thesis by simp
qed

lemma keys_delete: "fst ` set (AList.delete k al) = fst ` set al - {k}"
proof -
  have "set (map fst (AList.delete k al)) = set (map fst al) - {k}"
    by (simp add: delete_keys)
  thus ?thesis by simp
qed

lemma step_keys:
  "fst ` set (todos (step x r)) \<subseteq> fst ` set (todos r) \<union> snd ` set (assigned1 x r)"
proof (cases x)
  case (OpCreate t)
  show ?thesis
  proof (cases "ID t = 0")
    case True
    then show ?thesis using OpCreate by (simp add: Create_auto keys_update)
  next
    case False
    then show ?thesis using OpCreate
      by (cases "Exists (ID t) r") (simp_all add: Create_occupied Create_supplied keys_update)
  qed
next
  case (OpUpdate t)
  then show ?thesis by (auto simp: Update_def keys_update map_of_eq_None_iff)
next
  case (OpDelete i)
  then show ?thesis by (auto simp: Delete_def keys_delete)
qed

lemma run_keys:
  "fst ` set (todos (run xs r)) \<subseteq> fst ` set (todos r) \<union> snd ` set (assigned xs r)"
proof (induction xs arbitrary: r)
  case Nil
  then show ?case by simp
next
  case (Cons x xs)
  have "fst ` set (todos (run (x # xs) r))
          \<subseteq> fst ` set (todos (step x r)) \<union> snd ` set (assigned xs (step x r))"
    using Cons.IH [of "step x r"] by simp
  also have "\<dots> \<subseteq> fst ` set (todos r) \<union> snd ` set (assigned1 x r)
                    \<union> snd ` set (assigned xs (step x r))"
    using step_keys [of x r] by blast
  finally show ?case by (simp add: image_Un Un_assoc)
qed

lemma absent_ops:
  "\<not> Exists i r \<Longrightarrow>
     GetByID i r = Inl ErrTodoNotFound
     \<and> Update (t\<lparr>ID := i\<rparr>) r = (Some ErrTodoNotFound, r)
     \<and> Delete i r = (Some ErrTodoNotFound, r)"
  by (simp add: Exists_def GetByID_def Update_def Delete_def)

lemma Delete_absent_after: "Delete i r = (None, r') \<Longrightarrow> \<not> Exists i r'"
  by (auto simp: Delete_def Exists_def delete_conv' split: if_splits)

lemma create_step:
  assumes "below_next r" and "\<not> wraps t r"
  shows "below_next (snd (Create t r)) \<and> nextID r \<le>s nextID (snd (Create t r))
       \<and> fst ` set (todos r) \<subseteq> fst ` set (todos (snd (Create t r)))
       \<and> (\<forall>e \<in> set (assigned1 (OpCreate t) r).
             snd e <s nextID (snd (Create t r)) \<and> (fst e \<longrightarrow> nextID r \<le>s snd e)
             \<and> snd e \<notin> fst ` set (todos r) \<and> snd e \<in> fst ` set (todos (snd (Create t r))))"
proof (cases "ID t = 0")
  case True
  hence n: "nextID r \<noteq> MaxInt64" using assms(2) by (simp add: wraps_def)
  have "\<not> nextID r <s nextID r" by (simp add: word_sless_alt)
  hence "nextID r \<notin> fst ` set (todos r)" using assms(1) by (auto simp: below_next_def)
  thus ?thesis using True assms(1) sint_succ [OF n]
    by (auto simp: Create_auto below_next_def keys_update word_sless_alt word_sle_eq)
next
  case False
  show ?thesis
  proof (cases "Exists (ID t) r")
    case True
    thus ?thesis using False assms(1) by (simp add: Create_occupied word_sle_eq)
  next
    case ne: False
    hence n: "ID t \<noteq> MaxInt64" using assms(2) False by (simp add: wraps_def)
    show ?thesis using False ne assms(1) sint_succ [OF n]
      by (auto simp: Create_supplied below_next_def keys_update word_sless_alt word_sle_eq
          Exists_keys)
  qed
qed

lemma step_below:
  assumes "below_next r" and "\<not> wraps_op x r"
  shows "below_next (step x r) \<and> nextID r \<le>s nextID (step x r)"
proof (cases x)
  case (OpCreate t)
  thus ?thesis using create_step [of r t] assms by simp
next
  case (OpUpdate t)
  have k: "fst ` set (todos (step x r)) \<subseteq> fst ` set (todos r)"
    unfolding OpUpdate by (simp add: Update_def keys_update map_of_eq_None_iff)
  have n: "nextID (step x r) = nextID r"
    unfolding OpUpdate by (simp add: Update_def)
  have "below_next (step x r)"
    using assms(1) k unfolding below_next_def n by blast
  thus ?thesis by (simp add: n word_sle_eq)
next
  case (OpDelete i)
  have k: "fst ` set (todos (step x r)) \<subseteq> fst ` set (todos r)"
    unfolding OpDelete by (auto simp: Delete_def keys_delete)
  have n: "nextID (step x r) = nextID r"
    unfolding OpDelete by (simp add: Delete_def)
  have "below_next (step x r)"
    using assms(1) k unfolding below_next_def n by blast
  thus ?thesis by (simp add: n word_sle_eq)
qed

lemma assigned1_bounds:
  assumes "below_next r" and "\<not> wraps_op x r" and "e \<in> set (assigned1 x r)"
  shows "snd e <s nextID (step x r) \<and> (fst e \<longrightarrow> nextID r \<le>s snd e)"
proof (cases x)
  case (OpCreate t)
  have "\<forall>e \<in> set (assigned1 x r).
          snd e <s nextID (step x r) \<and> (fst e \<longrightarrow> nextID r \<le>s snd e)"
    unfolding OpCreate step.simps using create_step [of r t] assms(1,2) OpCreate by simp
  thus ?thesis using assms(3) by blast
next
  case (OpUpdate t)
  thus ?thesis using assms(3) by simp
next
  case (OpDelete i)
  thus ?thesis using assms(3) by simp
qed

lemma autos_from_next:
  "below_next r \<Longrightarrow> no_wrap xs r \<Longrightarrow> e \<in> set (assigned xs r) \<Longrightarrow> fst e \<Longrightarrow> nextID r \<le>s snd e"
proof (induction xs arbitrary: r)
  case Nil
  then show ?case by simp
next
  case (Cons x xs)
  have nw: "\<not> wraps_op x r" and nws: "no_wrap xs (step x r)" using Cons.prems(2) by simp_all
  have sb: "below_next (step x r)" and le: "nextID r \<le>s nextID (step x r)"
    using step_below [OF Cons.prems(1) nw] by simp_all
  from Cons.prems(3) consider "e \<in> set (assigned1 x r)" | "e \<in> set (assigned xs (step x r))"
    by auto
  then show ?case
  proof cases
    case 1
    then show ?thesis using assigned1_bounds [OF Cons.prems(1) nw 1] Cons.prems(4) by simp
  next
    case 2
    have "nextID (step x r) \<le>s snd e" using Cons.IH [OF sb nws 2 Cons.prems(4)] .
    then show ?thesis using le by (simp add: word_sle_eq)
  qed
qed

lemma assigned1_cases: "assigned1 x r = [] \<or> (\<exists>e. assigned1 x r = [e])"
  by (cases x) (auto split: prod.splits option.splits)

lemma later_autos_above_assigned:
  "below_next r \<Longrightarrow> no_wrap xs r \<Longrightarrow> later_autos_above (assigned xs r)"
proof (induction xs arbitrary: r)
  case Nil
  then show ?case by simp
next
  case (Cons x xs)
  have nw: "\<not> wraps_op x r" and nws: "no_wrap xs (step x r)" using Cons.prems(2) by simp_all
  have sb: "below_next (step x r)" using step_below [OF Cons.prems(1) nw] by simp
  have ih: "later_autos_above (assigned xs (step x r))" using Cons.IH [OF sb nws] .
  from assigned1_cases [of x r] show ?case
  proof
    assume "assigned1 x r = []"
    then show ?thesis using ih by simp
  next
    assume "\<exists>e. assigned1 x r = [e]"
    then obtain e where e: "assigned1 x r = [e]" by blast
    hence lt: "snd e <s nextID (step x r)"
      using assigned1_bounds [OF Cons.prems(1) nw, of e] by simp
    have "\<forall>f \<in> set (assigned xs (step x r)). fst f \<longrightarrow> snd e <s snd f"
    proof (intro ballI impI)
      fix f assume f: "f \<in> set (assigned xs (step x r))" and a: "fst f"
      have "nextID (step x r) \<le>s snd f" using autos_from_next [OF sb nws f a] .
      thus "snd e <s snd f" using lt by (simp add: word_sle_eq word_sless_alt)
    qed
    then show ?thesis using e ih by simp
  qed
qed

lemma creates_fresh:
  "below_next r \<Longrightarrow> no_wrap xs r \<Longrightarrow> list_all is_create xs \<Longrightarrow>
     distinct (map snd (assigned xs r)) \<and> snd ` set (assigned xs r) \<inter> fst ` set (todos r) = {}"
proof (induction xs arbitrary: r)
  case Nil
  then show ?case by simp
next
  case (Cons x xs)
  from Cons.prems(3) obtain t where x: "x = OpCreate t" and cs: "list_all is_create xs"
    by (cases x) simp_all
  have nw: "\<not> wraps t r" and nws: "no_wrap xs (step x r)" using Cons.prems(2) x by simp_all
  note cst = create_step [OF Cons.prems(1) nw]
  have sb: "below_next (step x r)" using cst x by simp
  have ih: "distinct (map snd (assigned xs (step x r)))"
    and ih2: "snd ` set (assigned xs (step x r)) \<inter> fst ` set (todos (step x r)) = {}"
    using Cons.IH [OF sb nws cs] by simp_all
  have sub: "fst ` set (todos r) \<subseteq> fst ` set (todos (step x r))" using cst x by simp
  from assigned1_cases [of x r] show ?case
  proof
    assume "assigned1 x r = []"
    hence eq: "assigned (x # xs) r = assigned xs (step x r)" by simp
    show ?thesis unfolding eq using ih ih2 sub by blast
  next
    assume "\<exists>e. assigned1 x r = [e]"
    then obtain e where e: "assigned1 x r = [e]" by blast
    hence eq: "assigned (x # xs) r = e # assigned xs (step x r)" by simp
    have "\<forall>e \<in> set (assigned1 (OpCreate t) r).
            snd e \<notin> fst ` set (todos r) \<and> snd e \<in> fst ` set (todos (snd (Create t r)))"
      using cst by blast
    moreover have "e \<in> set (assigned1 (OpCreate t) r)"
      using e unfolding x by simp
    ultimately have e1: "snd e \<notin> fst ` set (todos r)"
      and e2: "snd e \<in> fst ` set (todos (step x r))"
      unfolding x step.simps by blast+
    have "snd e \<notin> snd ` set (assigned xs (step x r))" using e2 ih2 by blast
    hence d: "distinct (map snd (e # assigned xs (step x r)))" using ih by simp
    have "snd ` set (assigned xs (step x r)) \<inter> fst ` set (todos r) = {}"
      using ih2 sub by blast
    hence "snd ` set (e # assigned xs (step x r)) \<inter> fst ` set (todos r) = {}"
      using e1 by simp
    thus ?thesis unfolding eq using d by blast
  qed
qed

lemma update_entries: "e \<in> set (AList.update k v al) \<Longrightarrow> e = (k, v) \<or> e \<in> set al"
  by (induct al) (auto split: if_splits)

lemma delete_entries: "e \<in> set (AList.delete k al) \<Longrightarrow> e \<in> set al"
  by (induct al) (auto split: if_splits)

lemma store_inv_insert:
  assumes "store_inv r" and "ID v = k" and "0 <s k" and "0 <s n"
  shows "store_inv \<lparr>todos = AList.update k v (todos r), nextID = n\<rparr>"
proof -
  have d: "distinct (map fst (AList.update k v (todos r)))"
    using assms(1) by (simp add: store_inv_def distinct_update)
  have "\<forall>e \<in> set (AList.update k v (todos r)). ID (snd e) = fst e \<and> 0 <s fst e"
  proof
    fix e assume "e \<in> set (AList.update k v (todos r))"
    hence "e = (k, v) \<or> e \<in> set (todos r)" by (rule update_entries)
    thus "ID (snd e) = fst e \<and> 0 <s fst e"
      using assms by (auto simp: store_inv_def)
  qed
  thus ?thesis using d assms(4) by (simp add: store_inv_def)
qed

lemma Create_inv:
  assumes "store_inv r" and "0 \<le>s ID t" and "\<not> wraps t r"
  shows "store_inv (snd (Create t r))"
proof (cases "ID t = 0")
  case True
  hence n: "nextID r \<noteq> MaxInt64" using assms(3) by (simp add: wraps_def)
  have p: "0 <s nextID r" using assms(1) by (simp add: store_inv_def)
  hence "0 <s nextID r + 1" using sint_succ [OF n] by (simp add: word_sless_alt)
  thus ?thesis
    using True p
      store_inv_insert [OF assms(1), of "t\<lparr>ID := nextID r\<rparr>" "nextID r" "nextID r + 1"]
    by (simp add: Create_auto)
next
  case False
  hence "sint (ID t) \<noteq> sint (0 :: int64)" using signed_word_eqI [of "ID t" 0] by blast
  hence pos: "0 <s ID t" using assms(2) by (simp add: word_sle_eq word_sless_alt)
  show ?thesis
  proof (cases "Exists (ID t) r")
    case True
    thus ?thesis using False assms(1) by (simp add: Create_occupied)
  next
    case ne: False
    hence n: "ID t \<noteq> MaxInt64" using assms(3) False by (simp add: wraps_def)
    have p: "0 <s nextID r" using assms(1) by (simp add: store_inv_def)
    have "0 <s (if nextID r \<le>s ID t then ID t + 1 else nextID r)"
      using p pos sint_succ [OF n] by (simp add: word_sless_alt)
    thus ?thesis
      using False ne pos store_inv_insert [OF assms(1), of t "ID t"]
      by (simp add: Create_supplied)
  qed
qed

lemma Update_inv:
  assumes "store_inv r"
  shows "store_inv (snd (Update t r))"
proof (cases "map_of (todos r) (ID t) = None")
  case True
  thus ?thesis using assms by (simp add: Update_def)
next
  case False
  then obtain v where "(ID t, v) \<in> set (todos r)" by (auto dest: map_of_SomeD)
  hence pos: "0 <s ID t" using assms by (auto simp: store_inv_def)
  have "\<forall>e \<in> set (AList.update (ID t) t (todos r)). ID (snd e) = fst e \<and> 0 <s fst e"
  proof
    fix e assume "e \<in> set (AList.update (ID t) t (todos r))"
    hence "e = (ID t, t) \<or> e \<in> set (todos r)" by (rule update_entries)
    thus "ID (snd e) = fst e \<and> 0 <s fst e"
      using assms pos by (auto simp: store_inv_def)
  qed
  thus ?thesis using False assms by (simp add: Update_def store_inv_def distinct_update)
qed

lemma Delete_inv:
  assumes "store_inv r"
  shows "store_inv (snd (Delete i r))"
  using assms
  by (auto simp: Delete_def store_inv_def distinct_delete dest: delete_entries)

lemma below_next_free: "below_next r \<Longrightarrow> \<not> Exists (nextID r) r"
  by (auto simp: below_next_def Exists_keys word_sless_alt)

lemma sint_Max_succ: "sint (MaxInt64 + 1) = - (2 ^ 63)"
  by (simp add: MaxInt64_def)

lemma le_MaxInt64: "x \<le>s MaxInt64"
  using sint_lt [of x] by (simp add: word_sle_eq sint_MaxInt64)

section \<open>Basic facts about the operation layer and the path parser\<close>

lemma InMemory_sel:
  "repo_Create InMemory = Create"
  "repo_GetAll InMemory = (\<lambda>r. (GetAll r, r))"
  "repo_GetByID InMemory = (\<lambda>i r. (GetByID i r, r))"
  "repo_Update InMemory = Update"
  "repo_Delete InMemory = Delete"
  "repo_Exists InMemory = (\<lambda>i r. (Exists i r, r))"
  by (simp_all add: InMemory_def)

lemma UpdateTodo_InMemory:
  "Title todo \<noteq> [] \<Longrightarrow> TodoUseCase_UpdateTodo InMemory i todo r =
     (if Exists i r then (Inr (todo\<lparr>ID := i\<rparr>), r\<lparr>todos := AList.update i (todo\<lparr>ID := i\<rparr>) (todos r)\<rparr>)
      else (Inl ErrTodoNotFound, r))"
  by (auto simp: TodoUseCase_UpdateTodo_def Validate_def InMemory_sel Update_def Exists_def Let_def)

lemma isDigit_not_slash: "isDigit c \<Longrightarrow> c \<noteq> CHR ''/''"
  by (auto simp: isDigit_def)

lemma ParseUint_digits_all:
  "ParseUint_digits ds n = Inr m \<Longrightarrow> list_all isDigit ds"
  by (induction ds arbitrary: n) (auto split: if_splits)

lemma digits_foldl_mono:
  "0 \<le> n \<Longrightarrow> list_all isDigit ds \<Longrightarrow>
     n \<le> foldl (\<lambda>n c. n * 10 + ((of_char c :: int) - 48)) n ds"
proof (induction ds arbitrary: n)
  case Nil
  then show ?case by simp
next
  case (Cons c cs)
  have d: "0 \<le> (of_char c :: int) - 48" using Cons.prems(2) by (simp add: isDigit_def)
  hence "0 \<le> n * 10 + ((of_char c :: int) - 48)" using Cons.prems(1) by simp
  hence "n * 10 + ((of_char c :: int) - 48)
           \<le> foldl (\<lambda>n c. n * 10 + ((of_char c :: int) - 48))
               (n * 10 + ((of_char c :: int) - 48)) cs"
    using Cons.prems(2) by (intro Cons.IH) simp_all
  thus ?case using d Cons.prems(1) by simp
qed

lemma ParseUint_digits_value:
  "0 \<le> n \<Longrightarrow> list_all isDigit ds \<Longrightarrow>
   foldl (\<lambda>n c. n * 10 + ((of_char c :: int) - 48)) n ds < 2 ^ 64 \<Longrightarrow>
     ParseUint_digits ds n = Inr (foldl (\<lambda>n c. n * 10 + ((of_char c :: int) - 48)) n ds)"
proof (induction ds arbitrary: n)
  case Nil
  then show ?case by simp
next
  case (Cons c cs)
  let ?n = "n * 10 + ((of_char c :: int) - 48)"
  have c: "isDigit c" and cs: "list_all isDigit cs" using Cons.prems(2) by simp_all
  have d: "0 \<le> (of_char c :: int) - 48" using c by (simp add: isDigit_def)
  hence n0: "0 \<le> ?n" using Cons.prems(1) by simp
  have "?n \<le> foldl (\<lambda>n c. n * 10 + ((of_char c :: int) - 48)) ?n cs"
    using n0 cs by (rule digits_foldl_mono)
  hence lt: "?n < 2 ^ 64" using Cons.prems(3) by simp
  have "ParseUint_digits cs ?n = Inr (foldl (\<lambda>n c. n * 10 + ((of_char c :: int) - 48)) ?n cs)"
    using n0 cs Cons.prems(3) by (intro Cons.IH) simp_all
  thus ?case using c lt by simp
qed

lemma Atoi_chars:
  assumes "strconv_Atoi seg = Inr n"
  shows "seg \<noteq> [] \<and> CHR ''/'' \<notin> set seg"
proof (cases seg)
  case Nil
  thus ?thesis using assms by (simp add: strconv_Atoi_def strconv_ParseInt_def)
next
  case (Cons c cs)
  define ds where "ds = (if c = CHR ''+'' \<or> c = CHR ''-'' then cs else seg)"
  have "\<exists>un. strconv_ParseUint ds = Inr un"
    using assms Cons
    by (auto simp: strconv_Atoi_def strconv_ParseInt_def Let_def ds_def split: sum.splits)
  hence "list_all isDigit ds"
    by (auto simp: strconv_ParseUint_def split: if_splits dest: ParseUint_digits_all)
  hence "CHR ''/'' \<notin> set ds" using isDigit_not_slash by (auto simp: list_all_iff)
  thus ?thesis using Cons by (auto simp: ds_def split: if_splits)
qed

lemma Split_nonempty: "strings_Split s sep \<noteq> []"
  by (induct s) (auto split: list.splits)

lemma Split_no_sep: "sep \<notin> set a \<Longrightarrow> strings_Split a sep = [a]"
  by (induct a) auto

lemma Split_append: "sep \<notin> set a \<Longrightarrow> strings_Split (a @ sep # b) sep = a # strings_Split b sep"
  by (induct a) (auto split: list.splits)

lemma trim_right_append:
  assumes "a \<noteq> []" and "\<not> P (last a)"
  shows "\<exists>z. rev (dropWhile P (rev (a @ b))) = a @ z \<and> (z = [] \<or> (b \<noteq> [] \<and> hd z = hd b))"
proof -
  have ra: "dropWhile P (rev a) = rev a"
    using assms by (cases a rule: rev_cases) simp_all
  show ?thesis
  proof (cases "\<forall>x \<in> set (rev b). P x")
    case True
    hence "rev (dropWhile P (rev (a @ b))) = a @ []"
      using ra by (simp add: dropWhile_append)
    thus ?thesis by blast
  next
    case False
    define z where "z = rev (dropWhile P (rev b))"
    have "z @ rev (takeWhile P (rev b)) = rev (takeWhile P (rev b) @ dropWhile P (rev b))"
      by (simp only: z_def rev_append)
    also have "\<dots> = rev (rev b)" by (simp only: takeWhile_dropWhile_id)
    finally have b: "b = z @ rev (takeWhile P (rev b))" by simp
    have zne: "z \<noteq> []" using False by (auto simp: z_def dropWhile_eq_Nil_conv)
    hence "b \<noteq> []" using b by auto
    moreover have "hd (z @ rev (takeWhile P (rev b))) = hd z" using zne by simp
    hence "hd z = hd b" using b by simp
    moreover have "rev (dropWhile P (rev (a @ b))) = a @ z"
    proof -
      from False obtain x where "x \<in> set (rev b)" and "\<not> P x" by blast
      hence "dropWhile P (rev b @ rev a) = dropWhile P (rev b) @ rev a"
        by (rule dropWhile_append1)
      thus ?thesis by (simp add: z_def)
    qed
    ultimately show ?thesis by blast
  qed
qed

lemma extractID_segment:
  assumes s1: "seg \<noteq> []" and s2: "CHR ''/'' \<notin> set seg"
  shows "extractIDFromPath (''/todos/'' @ seg @ ''/'' @ rest) = strconv_Atoi seg"
proof -
  let ?P = "\<lambda>c. c \<in> set ''/''"
  let ?a = "''todos/'' @ seg"
  have "last seg \<in> set seg" using s1 by simp
  hence "last seg \<noteq> CHR ''/''" using s2 by metis
  hence l: "\<not> ?P (last ?a)" using s1 by simp
  have ane: "?a \<noteq> []" by simp
  from trim_right_append [of ?a ?P "''/'' @ rest", OF ane l]
  obtain z where z: "rev (dropWhile ?P (rev (?a @ ''/'' @ rest))) = ?a @ z"
    and zz: "z = [] \<or> hd z = CHR ''/''" by auto
  have t: "strings_Trim (''/todos/'' @ seg @ ''/'' @ rest) ''/''
             = ''todos'' @ CHR ''/'' # (seg @ z)"
    using z by (simp add: strings_Trim_def)
  have sp: "strings_Split (''todos'' @ CHR ''/'' # (seg @ z)) (CHR ''/'')
              = ''todos'' # strings_Split (seg @ z) (CHR ''/'')"
    by (rule Split_append) simp
  have "\<exists>ps. strings_Split (seg @ z) (CHR ''/'') = seg # ps"
  proof (cases z)
    case Nil
    thus ?thesis using Split_no_sep [OF s2] by simp
  next
    case (Cons c z')
    hence "c = CHR ''/''" using zz by simp
    thus ?thesis using Cons Split_append [OF s2, of z'] by simp
  qed
  then obtain ps where ps: "strings_Split (seg @ z) (CHR ''/'') = seg # ps" by blast
  show ?thesis
    unfolding extractIDFromPath_def t sp ps by (simp add: Let_def)
qed

lemma extractID_last_segment:
  assumes s1: "seg \<noteq> []" and s2: "CHR ''/'' \<notin> set seg"
  shows "extractIDFromPath (''/todos/'' @ seg) = strconv_Atoi seg"
proof -
  let ?P = "\<lambda>c. c \<in> set ''/''"
  let ?a = "''todos/'' @ seg"
  have "last seg \<in> set seg" using s1 by simp
  hence "last seg \<noteq> CHR ''/''" using s2 by metis
  hence l: "\<not> ?P (last ?a)" using s1 by simp
  have "dropWhile ?P (rev ?a) = rev ?a"
    using l s1 by (cases seg rule: rev_cases) simp_all
  hence t: "strings_Trim (''/todos/'' @ seg) ''/'' = ''todos'' @ CHR ''/'' # seg"
    by (simp add: strings_Trim_def)
  have sp: "strings_Split (''todos'' @ CHR ''/'' # seg) (CHR ''/'')
              = ''todos'' # strings_Split seg (CHR ''/'')"
    by (rule Split_append) simp
  show ?thesis
    unfolding extractIDFromPath_def t sp Split_no_sep [OF s2] by (simp add: Let_def)
qed

declare decimalDigits.simps [simp del]

lemma digit_char: "0 \<le> d \<Longrightarrow> d < 10 \<Longrightarrow> (of_char (char_of (48 + d :: int)) :: int) = 48 + d"
  by (simp add: of_char_of)

lemma decimalDigits_nonempty: "decimalDigits k \<noteq> []"
  by (subst decimalDigits.simps) simp

lemma digitsValue_snoc: "digitsValue (xs @ [c]) = digitsValue xs * 10 + (of_char c - 48)"
  by (simp add: digitsValue_def)

lemma decimalDigits_ok:
  "0 \<le> k \<Longrightarrow> list_all isDigit (decimalDigits k) \<and> digitsValue (decimalDigits k) = k"
proof (induction k rule: decimalDigits.induct)
  case (1 k)
  show ?case
  proof (cases "k < 10")
    case True
    thus ?thesis using "1.prems"
      by (subst (1 2) decimalDigits.simps) (simp add: isDigit_def digitsValue_def digit_char)
  next
    case False
    hence ih: "list_all isDigit (decimalDigits (k div 10))"
      "digitsValue (decimalDigits (k div 10)) = k div 10"
      using "1.IH" "1.prems" by simp_all
    have d: "(of_char (char_of (48 + k mod 10)) :: int) = 48 + k mod 10"
      by (rule digit_char) simp_all
    show ?thesis using False ih d
      by (subst (1 2) decimalDigits.simps) (simp add: isDigit_def digitsValue_snoc)
  qed
qed

lemma isDigit_not_sign: "isDigit c \<Longrightarrow> c \<noteq> CHR ''-'' \<and> c \<noteq> CHR ''+''"
  by (auto simp: isDigit_def)

lemma Atoi_digits:
  assumes "ds \<noteq> []" and "list_all isDigit ds" and "digitsValue ds < 2 ^ 64"
  shows "strconv_Atoi ds
           = (if 2 ^ 63 \<le> digitsValue ds then Inl ErrRange else Inr (of_int (digitsValue ds)))"
    and "strconv_Atoi (CHR ''-'' # ds)
           = (if 2 ^ 63 < digitsValue ds then Inl ErrRange else Inr (- of_int (digitsValue ds)))"
proof -
  have u: "strconv_ParseUint ds = Inr (digitsValue ds)"
    using assms ParseUint_digits_value [of 0 ds]
    by (simp add: strconv_ParseUint_def digitsValue_def)
  from assms obtain c cs where ds: "ds = c # cs" and c: "isDigit c" by (cases ds) auto
  show "strconv_Atoi ds
           = (if 2 ^ 63 \<le> digitsValue ds then Inl ErrRange else Inr (of_int (digitsValue ds)))"
    using u isDigit_not_sign [OF c] unfolding ds
    by (simp add: strconv_Atoi_def strconv_ParseInt_def)
  show "strconv_Atoi (CHR ''-'' # ds)
           = (if 2 ^ 63 < digitsValue ds then Inl ErrRange else Inr (- of_int (digitsValue ds)))"
    using u by (simp add: strconv_Atoi_def strconv_ParseInt_def)
qed

lemma Atoi_Itoa: "strconv_Atoi (Itoa n) = Inr n"
proof (cases "sint n < 0")
  case True
  hence k: "0 \<le> - sint n" by simp
  have le: "- sint n \<le> 2 ^ 63" using sint_ge [of n] by simp
  have "strconv_Atoi (Itoa n) = Inr (- of_int (- sint n))"
    using True le decimalDigits_ok [OF k] Atoi_digits(2) [OF decimalDigits_nonempty, of "- sint n"]
    by (simp add: Itoa_def)
  thus ?thesis by simp
next
  case False
  hence k: "0 \<le> sint n" by simp
  have lt: "sint n < 2 ^ 63" using sint_lt [of n] by simp
  have "strconv_Atoi (Itoa n) = Inr (of_int (sint n))"
    using False lt decimalDigits_ok [OF k] Atoi_digits(1) [OF decimalDigits_nonempty, of "sint n"]
    by (simp add: Itoa_def)
  thus ?thesis by simp
qed

lemma Itoa_chars: "Itoa n \<noteq> [] \<and> CHR ''/'' \<notin> set (Itoa n)"
  using Atoi_chars [OF Atoi_Itoa] .

lemma HandleTodoByID_parsed:
  "extractIDFromPath (Path req) = Inr i \<Longrightarrow>
     HandleTodoByID dec repo req s =
       (if Method req = ''GET'' then TodoHandler_GetTodoByID repo req i s
        else if Method req = ''PUT'' then TodoHandler_UpdateTodo dec repo req i s
        else if Method req = ''DELETE'' then TodoHandler_DeleteTodo repo req i s
        else (respondWithError 405 ''Method not allowed'', s))"
  by (simp add: HandleTodoByID_def)

lemma GetTodoByID_absent:
  "\<not> Exists i r \<Longrightarrow>
     TodoHandler_GetTodoByID InMemory req i r = (respondWithError 404 ''Todo not found'', r)"
  by (simp add: TodoHandler_GetTodoByID_def TodoUseCase_GetTodoByID_def InMemory_sel GetByID_def
      Exists_def)

lemma DeleteTodo_absent:
  "\<not> Exists i r \<Longrightarrow>
     TodoHandler_DeleteTodo InMemory req i r = (respondWithError 404 ''Todo not found'', r)"
  by (simp add: TodoHandler_DeleteTodo_def TodoUseCase_DeleteTodo_def InMemory_sel Delete_def
      Exists_def)

lemma UpdateTodo_absent:
  "\<not> Exists i r \<Longrightarrow> dec (Body req) = Inr todo \<Longrightarrow> Title todo \<noteq> [] \<Longrightarrow>
     TodoHandler_UpdateTodo dec InMemory req i r = (respondWithError 404 ''Todo not found'', r)"
  by (simp add: TodoHandler_UpdateTodo_def UpdateTodo_InMemory)

lemma CreateTodo_conflict:
  "dec (Body req) = Inr todo \<Longrightarrow> Title todo \<noteq> [] \<Longrightarrow> ID todo \<noteq> 0 \<Longrightarrow> Exists (ID todo) r \<Longrightarrow>
     TodoHandler_CreateTodo dec InMemory req r
       = (respondWithError 409 ''todo with this ID already exists'', r)"
  by (simp add: TodoHandler_CreateTodo_def TodoUseCase_CreateTodo_def Validate_def InMemory_sel
      Create_occupied)

lemma handlers_bad_body:
  "dec (Body req) = Inl e \<Longrightarrow>
     TodoHandler_CreateTodo dec repo req s = (respondWithError 400 ''Invalid request body'', s)
     \<and> TodoHandler_UpdateTodo dec repo req i s = (respondWithError 400
         ''Invalid request body'', s)"
  by (simp add: TodoHandler_CreateTodo_def TodoHandler_UpdateTodo_def)

lemma example_paths:
  "extractIDFromPath ''/todos/5'' = Inr 5"
  "extractIDFromPath ''/todos/9'' = Inr 9"
  "extractIDFromPath ''/todos/abc'' = Inl ErrSyntax"
  "strconv_Atoi ''abc'' = Inl ErrSyntax"
  by (simp_all add: extractIDFromPath_def strings_Trim_def strconv_Atoi_def
      strconv_ParseInt_def strconv_ParseUint_def isDigit_def)

lemma respondWithError_eq:
  "respondWithError code msg =
     \<lparr>StatusCode = code, ContentType = Some ''application/json'',
      Written = Some (JObject [(''error'', JString msg)])\<rparr>"
  by (simp add: respondWithError_def respondWithJSON_def)

lemma handlers_outcomes:
  "(Method req \<noteq> ''POST'' \<and> Method req \<noteq> ''GET'' \<longrightarrow>
      HandleTodos dec repo req s = (respondWithError 405 ''Method not allowed'', s))
   \<and> (extractIDFromPath (Path req) = Inr i
        \<and> Method req \<noteq> ''GET'' \<and> Method req \<noteq> ''PUT'' \<and> Method req \<noteq> ''DELETE'' \<longrightarrow>
      HandleTodoByID dec repo req s = (respondWithError 405 ''Method not allowed'', s))
   \<and> (extractIDFromPath (Path req) = Inr i \<and> \<not> Exists i r
        \<and> (Method req = ''GET'' \<or> Method req = ''DELETE''
            \<or> Method req = ''PUT'' \<and> dec (Body req) = Inr todo \<and> Title todo \<noteq> []) \<longrightarrow>
      HandleTodoByID dec InMemory req r = (respondWithError 404 ''Todo not found'', r))
   \<and> (Method req = ''POST'' \<and> dec (Body req) = Inr todo \<and> Title todo \<noteq> []
        \<and> ID todo \<noteq> 0 \<and> Exists (ID todo) r \<longrightarrow>
      HandleTodos dec InMemory req r = (respondWithError 409 ''todo with this ID already exists'', r))
   \<and> (dec (Body req) = Inl e \<and> Method req = ''POST'' \<longrightarrow>
      HandleTodos dec repo req s = (respondWithError 400 ''Invalid request body'', s))
   \<and> (dec (Body req) = Inl e \<and> Method req = ''PUT'' \<and> extractIDFromPath (Path req) = Inr i \<longrightarrow>
      HandleTodoByID dec repo req s = (respondWithError 400 ''Invalid request body'', s))
   \<and> (dec (Body req) = Inr todo \<and> Title todo = [] \<and> Method req = ''POST'' \<longrightarrow>
      HandleTodos dec repo req s = (respondWithError 400 ''title cannot be empty'', s))
   \<and> (dec (Body req) = Inr todo \<and> Title todo = [] \<and> Method req = ''PUT''
        \<and> extractIDFromPath (Path req) = Inr i \<longrightarrow>
      HandleTodoByID dec repo req s = (respondWithError 400 ''title cannot be empty'', s))
   \<and> (extractIDFromPath (Path req) = Inl e \<longrightarrow>
      HandleTodoByID dec repo req s = (respondWithError 400 ''Invalid todo ID'', s))
   \<and> (seg \<noteq> [] \<and> CHR ''/'' \<notin> set seg \<and> strconv_Atoi seg = Inl e \<longrightarrow>
      HandleTodoByID dec repo \<lparr>Method = m, Path = ''/todos/'' @ seg, Body = b\<rparr> s = (respondWithError 400 ''Invalid todo ID'', s))"
proof (intro conjI impI)
  assume "Method req \<noteq> ''POST'' \<and> Method req \<noteq> ''GET''"
  thus "HandleTodos dec repo req s = (respondWithError 405 ''Method not allowed'', s)"
    by (simp add: HandleTodos_def)
next
  assume "extractIDFromPath (Path req) = Inr i
        \<and> Method req \<noteq> ''GET'' \<and> Method req \<noteq> ''PUT'' \<and> Method req \<noteq> ''DELETE''"
  thus "HandleTodoByID dec repo req s = (respondWithError 405 ''Method not allowed'', s)"
    by (simp add: HandleTodoByID_parsed)
next
  assume a: "extractIDFromPath (Path req) = Inr i \<and> \<not> Exists i r
        \<and> (Method req = ''GET'' \<or> Method req = ''DELETE''
            \<or> Method req = ''PUT'' \<and> dec (Body req) = Inr todo \<and> Title todo \<noteq> [])"
  hence p: "extractIDFromPath (Path req) = Inr i" and ne: "\<not> Exists i r" by simp_all
  from a have "Method req = ''GET'' \<or> Method req = ''DELETE''
            \<or> Method req = ''PUT'' \<and> dec (Body req) = Inr todo \<and> Title todo \<noteq> []" by simp
  thus "HandleTodoByID dec InMemory req r = (respondWithError 404 ''Todo not found'', r)"
    using GetTodoByID_absent [OF ne] DeleteTodo_absent [OF ne] UpdateTodo_absent [OF ne]
    by (auto simp: HandleTodoByID_parsed [OF p])
next
  assume "Method req = ''POST'' \<and> dec (Body req) = Inr todo \<and> Title todo \<noteq> []
        \<and> ID todo \<noteq> 0 \<and> Exists (ID todo) r"
  thus "HandleTodos dec InMemory req r
        = (respondWithError 409 ''todo with this ID already exists'', r)"
    by (simp add: HandleTodos_def CreateTodo_conflict)
next
  assume "dec (Body req) = Inl e \<and> Method req = ''POST''"
  thus "HandleTodos dec repo req s = (respondWithError 400 ''Invalid request body'', s)"
    by (simp add: HandleTodos_def handlers_bad_body)
next
  assume "dec (Body req) = Inl e \<and> Method req = ''PUT'' \<and> extractIDFromPath (Path req) = Inr i"
  thus "HandleTodoByID dec repo req s = (respondWithError 400 ''Invalid request body'', s)"
    by (simp add: HandleTodoByID_parsed handlers_bad_body)
next
  assume a: "dec (Body req) = Inr todo \<and> Title todo = [] \<and> Method req = ''POST''"
  thus "HandleTodos dec repo req s = (respondWithError 400 ''title cannot be empty'', s)"
    by (simp add: HandleTodos_def TodoHandler_CreateTodo_def TodoUseCase_CreateTodo_def
        Validate_def)
next
  assume a: "dec (Body req) = Inr todo \<and> Title todo = [] \<and> Method req = ''PUT''
        \<and> extractIDFromPath (Path req) = Inr i"
  thus "HandleTodoByID dec repo req s = (respondWithError 400 ''title cannot be empty'', s)"
    by (simp add: HandleTodoByID_parsed TodoHandler_UpdateTodo_def TodoUseCase_UpdateTodo_def
        Validate_def)
next
  assume "extractIDFromPath (Path req) = Inl e"
  thus "HandleTodoByID dec repo req s = (respondWithError 400 ''Invalid todo ID'', s)"
    by (simp add: HandleTodoByID_def)
next
  assume a: "seg \<noteq> [] \<and> CHR ''/'' \<notin> set seg \<and> strconv_Atoi seg = Inl e"
  hence "extractIDFromPath (''/todos/'' @ seg) = strconv_Atoi seg"
    by (intro extractID_last_segment) simp_all
  hence "extractIDFromPath (Path \<lparr>Method = m, Path = ''/todos/'' @ seg, Body = b\<rparr>) = Inl e"
    using a by simp
  thus "HandleTodoByID dec repo \<lparr>Method = m, Path = ''/todos/'' @ seg, Body = b\<rparr> s
          = (respondWithError 400 ''Invalid todo ID'', s)"
    unfolding HandleTodoByID_def by simp
qed

lemma HandleTodoByID_operations:
  assumes p: "extractIDFromPath (Path req) = Inr k"
  shows "HandleTodoByID dec repo req s =
           (if Method req = ''GET'' then
              (case repo_GetByID repo k s of
                 (Inl err, s') \<Rightarrow>
                   (if err = ErrTodoNotFound then
                      \<lparr>StatusCode = 404, ContentType = Some ''application/json'',
                       Written = Some (JObject [(''error'', JString ''Todo not found'')])\<rparr>
                    else
                      \<lparr>StatusCode = 500, ContentType = Some ''application/json'',
                       Written = Some (JObject [(''error'', JString ''Failed to fetch todo'')])\<rparr>,
                    s')
               | (Inr t, s') \<Rightarrow>
                   (\<lparr>StatusCode = 200, ContentType = Some ''application/json'',
                     Written = Some (Todo_json t)\<rparr>,
                    s'))
            else if Method req = ''PUT'' then
              (case dec (Body req) of
                 Inl err \<Rightarrow>
                   (\<lparr>StatusCode = 400, ContentType = Some ''application/json'',
                     Written = Some (JObject [(''error'', JString ''Invalid request body'')])\<rparr>,
                    s)
               | Inr t \<Rightarrow>
                   (case TodoUseCase_UpdateTodo repo k t s of
                      (Inl err, s') \<Rightarrow>
                        (if err = ErrTodoNotFound then
                           \<lparr>StatusCode = 404, ContentType = Some ''application/json'',
                            Written = Some (JObject [(''error'', JString ''Todo not found'')])\<rparr>
                         else
                           \<lparr>StatusCode = 400, ContentType = Some ''application/json'',
                            Written = Some (JObject [(''error'', JString (Error err))])\<rparr>,
                         s')
                    | (Inr u, s') \<Rightarrow>
                        (\<lparr>StatusCode = 200, ContentType = Some ''application/json'',
                          Written = Some (Todo_json u)\<rparr>,
                         s')))
            else if Method req = ''DELETE'' then
              (case repo_Delete repo k s of
                 (Some err, s') \<Rightarrow>
                   (if err = ErrTodoNotFound then
                      \<lparr>StatusCode = 404, ContentType = Some ''application/json'',
                       Written = Some (JObject [(''error'', JString ''Todo not found'')])\<rparr>
                    else
                      \<lparr>StatusCode = 500, ContentType = Some ''application/json'',
                       Written = Some (JObject [(''error'', JString ''Failed to delete todo'')])\<rparr>,
                    s')
               | (None, s') \<Rightarrow>
                   (\<lparr>StatusCode = 204, ContentType = None, Written = None\<rparr>, s'))
            else
              (\<lparr>StatusCode = 405, ContentType = Some ''application/json'',
                Written = Some (JObject [(''error'', JString ''Method not allowed'')])\<rparr>,
               s))"
  unfolding HandleTodoByID_parsed [OF p]
  by (simp add: TodoHandler_GetTodoByID_def TodoHandler_UpdateTodo_def TodoHandler_DeleteTodo_def
      TodoUseCase_GetTodoByID_def TodoUseCase_DeleteTodo_def respondWithError_def
      respondWithJSON_def split: prod.splits sum.splits option.splits)

lemma HandleTodoByID_update:
  assumes p: "extractIDFromPath (Path req) = Inr k"
    and m: "Method req = ''PUT''" and d: "dec (Body req) = Inr todo" and t: "Title todo \<noteq> []"
  shows "HandleTodoByID dec repo req s =
           (case repo_Exists repo k s of
              (False, s1) \<Rightarrow> (respondWithError 404 ''Todo not found'', s1)
            | (True, s1) \<Rightarrow>
                (case repo_Update repo (todo\<lparr>ID := k\<rparr>) s1 of
                   (Some err, s2) \<Rightarrow>
                     (if err = ErrTodoNotFound then respondWithError 404 ''Todo not found''
                      else respondWithError 400 (Error err),
                      s2)
                 | (None, s2) \<Rightarrow> (respondWithJSON 200 (PTodo (todo\<lparr>ID := k\<rparr>)), s2)))"
  unfolding HandleTodoByID_parsed [OF p]
  using m d t
  by (simp add: TodoHandler_UpdateTodo_def TodoUseCase_UpdateTodo_def Validate_def Let_def
      split: prod.splits bool.splits option.splits)

lemma Atoi_examples:
  "strconv_Atoi ''0'' = Inr 0"
  "strconv_Atoi ''-7'' = Inr (- 7)"
  "strconv_Atoi ''+5'' = Inr 5"
  "strconv_Atoi ''007'' = Inr 7"
  by (simp_all add: strconv_Atoi_def strconv_ParseInt_def strconv_ParseUint_def isDigit_def)

section \<open>Round trip\<close>

text \<open>
  C2. After a successful \<open>Create\<close>, \<open>GetByID\<close> at the id that \<open>Create\<close> assigned succeeds and
  returns the input record with only its id field set to the assigned id.
\<close>

theorem Create_GetByID_roundtrip:
  "Create t r = ((None, t'), r') \<Longrightarrow> GetByID (ID t') r' = Inr t' \<and> t' = t\<lparr>ID := ID t'\<rparr>"
  by (auto simp: Create_def GetByID_def Let_def update_conv' split: if_splits)

theorem Create_GetByID_roundtrip_witness:
  "Create (Todo_of 0 ''Buy milk'') NewInMemoryTodoRepository
       = ((None, Todo_of 1 ''Buy milk''), \<lparr>todos = [(1, Todo_of 1 ''Buy milk'')], nextID = 2\<rparr>)
   \<and> GetByID 1 \<lparr>todos = [(1, Todo_of 1 ''Buy milk'')], nextID = 2\<rparr>
       = Inr (Todo_of 1 ''Buy milk'')"
proof -
  have c:
    "Create (Todo_of 0 ''Buy milk'') NewInMemoryTodoRepository
         = ((None, Todo_of 1 ''Buy milk''), \<lparr>todos = [(1, Todo_of 1 ''Buy milk'')], nextID = 2\<rparr>)"
    by (simp add: Create_def NewInMemoryTodoRepository_def Let_def)
  show ?thesis
    using c
      Create_GetByID_roundtrip [OF c]
    by simp
qed

section \<open>Not-found consistency\<close>

text \<open>
  C3. Take an id that the store does not hold because the store is new or because the id's
  record has just been deleted, and run any calls after that in which no \<open>Create\<close> hands out
  this id. Then \<open>GetByID\<close>, \<open>Update\<close> of a record with this id and \<open>Delete\<close> each fail with
  \<open>ErrTodoNotFound\<close> and leave the store as it is. With no calls in between this is the
  second \<open>Delete\<close> after a successful one.
\<close>

theorem not_found_consistency:
  assumes "r0 = NewInMemoryTodoRepository \<or> Delete i rp = (None, r0)"
    and "i \<notin> snd ` set (assigned xs r0)"
  shows "GetByID i (run xs r0) = Inl ErrTodoNotFound
     \<and> Update (t\<lparr>ID := i\<rparr>) (run xs r0) = (Some ErrTodoNotFound, run xs r0)
     \<and> Delete i (run xs r0) = (Some ErrTodoNotFound, run xs r0)"
proof -
  have "\<not> Exists i r0"
    using assms(1) Delete_absent_after [of i rp r0]
    by (auto simp: NewInMemoryTodoRepository_def Exists_def)
  hence "i \<notin> fst ` set (todos r0)" by (simp add: Exists_keys)
  hence "i \<notin> fst ` set (todos (run xs r0))" using run_keys [of xs r0] assms(2) by blast
  hence "\<not> Exists i (run xs r0)" by (simp add: Exists_keys)
  thus ?thesis by (rule absent_ops)
qed

theorem not_found_consistency_witness:
  "Delete 1 \<lparr>todos = [(1, Todo_of 1 ''a'')], nextID = 2\<rparr> = (None, \<lparr>todos = [], nextID = 2\<rparr>)
   \<and> assigned [OpCreate (Todo_of 0 ''c''), OpUpdate
       \<lparr>ID = 1, Title = ''b'', Description = [], Completed = True\<rparr>] \<lparr>todos = [], nextID = 2\<rparr>
       = [(True, 2)]
   \<and> run [OpCreate (Todo_of 0 ''c''), OpUpdate
       \<lparr>ID = 1, Title = ''b'', Description = [], Completed = True\<rparr>] \<lparr>todos = [], nextID = 2\<rparr>
       = \<lparr>todos = [(2, Todo_of 2 ''c'')], nextID = 3\<rparr>
   \<and> GetByID 1 \<lparr>todos = [(2, Todo_of 2 ''c'')], nextID = 3\<rparr> = Inl ErrTodoNotFound
   \<and> Update \<lparr>ID = 1, Title = ''b'', Description = [], Completed = True\<rparr>
       \<lparr>todos = [(2, Todo_of 2 ''c'')], nextID = 3\<rparr>
       = (Some ErrTodoNotFound, \<lparr>todos = [(2, Todo_of 2 ''c'')], nextID = 3\<rparr>)
   \<and> Delete 1 \<lparr>todos = [(2, Todo_of 2 ''c'')], nextID = 3\<rparr>
       = (Some ErrTodoNotFound, \<lparr>todos = [(2, Todo_of 2 ''c'')], nextID = 3\<rparr>)"
proof -
  have d:
    "Delete 1 \<lparr>todos = [(1, Todo_of 1 ''a'')], nextID = 2\<rparr> = (None, \<lparr>todos = [], nextID = 2\<rparr>)"
    by (simp add: Delete_def)
  have a:
    "assigned [OpCreate (Todo_of 0 ''c''), OpUpdate
         \<lparr>ID = 1, Title = ''b'', Description = [], Completed = True\<rparr>] \<lparr>todos = [], nextID = 2\<rparr>
         = [(True, 2)]"
    by (simp add: Create_def Update_def Let_def)
  have n:
    "(1 :: int64) \<notin> snd ` set (assigned [OpCreate (Todo_of 0 ''c''), OpUpdate
         \<lparr>ID = 1, Title = ''b'', Description = [], Completed = True\<rparr>] \<lparr>todos = [], nextID = 2\<rparr>)"
    unfolding a
    by simp
  have r:
    "run [OpCreate (Todo_of 0 ''c''), OpUpdate
         \<lparr>ID = 1, Title = ''b'', Description = [], Completed = True\<rparr>] \<lparr>todos = [], nextID = 2\<rparr>
         = \<lparr>todos = [(2, Todo_of 2 ''c'')], nextID = 3\<rparr>"
    by (simp add: Create_def Update_def Let_def)
  show ?thesis
    using d a r
      not_found_consistency [OF
      disjI2 [OF d] n, of "\<lparr>ID = 1, Title = ''b'', Description = [], Completed = True\<rparr>"]
    by simp
qed

section \<open>Uniqueness of assigned ids\<close>

text \<open>
  C1, as the code has it. Start from a store whose ids all lie below the counter (a new
  store is one) and run any calls of \<open>Create\<close>, \<open>Update\<close> and \<open>Delete\<close> in which the counter
  never overflows. Then every auto-assigned id is greater than every id assigned before it,
  whether or not that record has been deleted since; so auto-assigned ids increase strictly
  in call order and never repeat an earlier id. If the calls are all \<open>Create\<close> calls, the ids
  of the successful ones are pairwise distinct. A caller-supplied id whose record has been
  deleted can be assigned again, and an overflow of the counter can hand out an occupied id;
  the counterexample shows both.
\<close>

theorem assigned_ids_fresh:
  assumes "below_next r" and "no_wrap xs r"
  shows "later_autos_above (assigned xs r)
       \<and> (list_all is_create xs \<longrightarrow> distinct (map snd (assigned xs r)))"
  using later_autos_above_assigned [OF assms] creates_fresh [OF assms] by blast

theorem assigned_ids_fresh_witness:
  "below_next NewInMemoryTodoRepository
   \<and> no_wrap
       [OpCreate (Todo_of 0 ''a''), OpCreate (Todo_of 5 ''b''), OpCreate (Todo_of 0 ''c'')]
       NewInMemoryTodoRepository
   \<and> list_all is_create
       [OpCreate (Todo_of 0 ''a''), OpCreate (Todo_of 5 ''b''), OpCreate (Todo_of 0 ''c'')]
   \<and> assigned
       [OpCreate (Todo_of 0 ''a''), OpCreate (Todo_of 5 ''b''), OpCreate (Todo_of 0 ''c'')]
       NewInMemoryTodoRepository
       = [(True, 1), (False, 5), (True, 6)]
   \<and> later_autos_above [(True, 1), (False, 5), (True, 6)]
   \<and> distinct (map snd [(True, 1 :: int64), (False, 5), (True, 6)])"
proof -
  have b: "below_next NewInMemoryTodoRepository"
    by (simp add: below_next_def NewInMemoryTodoRepository_def)
  have n:
    "no_wrap
         [OpCreate (Todo_of 0 ''a''), OpCreate (Todo_of 5 ''b''), OpCreate (Todo_of 0 ''c'')]
         NewInMemoryTodoRepository"
    by (simp add: Create_def NewInMemoryTodoRepository_def Let_def word_sle_eq wraps_def
        MaxInt64_def Exists_def)
  have a:
    "assigned
         [OpCreate (Todo_of 0 ''a''), OpCreate (Todo_of 5 ''b''), OpCreate (Todo_of 0 ''c'')]
         NewInMemoryTodoRepository
         = [(True, 1), (False, 5), (True, 6)]"
    by (simp add: Create_def NewInMemoryTodoRepository_def Let_def word_sle_eq)
  show ?thesis
    using b n a
      assigned_ids_fresh [OF b n]
    by simp
qed

theorem id_reuse_counterexample:
  "assigned [OpCreate (Todo_of 5 ''b''), OpDelete 5, OpCreate (Todo_of 5 ''b2'')]
       NewInMemoryTodoRepository
       = [(False, 5), (False, 5)]
   \<and> assigned [OpCreate (Todo_of 0x7FFFFFFFFFFFFFFF ''m''), OpCreate
       (Todo_of 0x7FFFFFFFFFFFFFFE ''n''), OpCreate (Todo_of 0 ''c'')] NewInMemoryTodoRepository
       = [(False, 0x7FFFFFFFFFFFFFFF), (False, 0x7FFFFFFFFFFFFFFE), (True, 0x7FFFFFFFFFFFFFFF)]"
  by (simp add: Create_def Delete_def NewInMemoryTodoRepository_def Let_def word_sle_eq)

section \<open>Create with a caller-supplied id\<close>

text \<open>
  C5, as the code has it. For a record with an id other than 0: if the id is occupied,
  \<open>Create\<close> fails with \<open>ErrTodoAlreadyExists\<close> and returns the record and the repository (map
  and counter) as they were. If it is free, \<open>Create\<close> succeeds and the map afterwards is the
  old one with the record at that id. If moreover the id is not \<open>MaxInt64\<close>, the counter
  afterwards is the maximum of the old counter and the id plus one; and if all stored ids
  lay below the counter before, they do afterwards, so the id the next auto-assignment hands
  out is free. At the id \<open>MaxInt64\<close> the addition wraps, whatever the repository was: the
  counter afterwards is \<open>MaxInt64 + 1\<close>, the smallest integer \<open>-2^63\<close>, and not the maximum;
  a later auto-assignment can then reach an occupied id, as the counterexample shows.
\<close>

theorem Create_with_id:
  assumes "ID t \<noteq> 0"
  shows "(Exists (ID t) r \<longrightarrow> Create t r = ((Some ErrTodoAlreadyExists, t), r))
       \<and> (\<not> Exists (ID t) r \<longrightarrow>
            fst (Create t r) = (None, t)
          \<and> map_of (todos (snd (Create t r))) = (map_of (todos r))(ID t \<mapsto> t)
          \<and> (ID t \<noteq> MaxInt64 \<longrightarrow>
               sint (nextID (snd (Create t r))) = max (sint (nextID r)) (sint (ID t) + 1)
             \<and> (below_next r \<longrightarrow> below_next (snd (Create t r))
                    \<and> \<not> Exists (nextID (snd (Create t r))) (snd (Create t r))))
          \<and> (ID t = MaxInt64 \<longrightarrow>
               nextID (snd (Create t r)) = MaxInt64 + 1
             \<and> sint (nextID (snd (Create t r))) = - (2 ^ 63)))"
proof (intro conjI impI)
  assume "Exists (ID t) r"
  thus "Create t r = ((Some ErrTodoAlreadyExists, t), r)"
    using assms by (rule Create_occupied [rotated])
next
  assume ne: "\<not> Exists (ID t) r"
  show "fst (Create t r) = (None, t)"
    using assms ne by (simp add: Create_supplied)
  show "map_of (todos (snd (Create t r))) = (map_of (todos r))(ID t \<mapsto> t)"
    using assms ne by (simp add: Create_supplied update_conv')
next
  assume ne: "\<not> Exists (ID t) r" and n: "ID t \<noteq> MaxInt64"
  show "sint (nextID (snd (Create t r))) = max (sint (nextID r)) (sint (ID t) + 1)"
    using assms ne sint_succ [OF n] by (simp add: Create_supplied word_sle_eq)
next
  assume ne: "\<not> Exists (ID t) r" and n: "ID t \<noteq> MaxInt64" and b: "below_next r"
  have nw: "\<not> wraps t r" using assms n by (simp add: wraps_def)
  show b': "below_next (snd (Create t r))"
    using create_step [OF b nw] by simp
  show "\<not> Exists (nextID (snd (Create t r))) (snd (Create t r))"
    using b' by (rule below_next_free)
next
  assume ne: "\<not> Exists (ID t) r" and m: "ID t = MaxInt64"
  show w: "nextID (snd (Create t r)) = MaxInt64 + 1"
    using assms ne m le_MaxInt64 [of "nextID r"] by (simp add: Create_supplied)
  show "sint (nextID (snd (Create t r))) = - (2 ^ 63)"
    unfolding w by (rule sint_Max_succ)
qed

theorem Create_with_id_witness:
  "Exists 5 \<lparr>todos = [(5, Todo_of 5 ''x'')], nextID = 6\<rparr>
   \<and> Create (Todo_of 5 ''y'') \<lparr>todos = [(5, Todo_of 5 ''x'')], nextID = 6\<rparr>
       = ((Some ErrTodoAlreadyExists, Todo_of 5 ''y''),
         \<lparr>todos = [(5, Todo_of 5 ''x'')], nextID = 6\<rparr>)
   \<and> \<not> Exists 9 \<lparr>todos = [(5, Todo_of 5 ''x'')], nextID = 6\<rparr>
   \<and> (9 :: int64) \<noteq> MaxInt64
   \<and> below_next \<lparr>todos = [(5, Todo_of 5 ''x'')], nextID = 6\<rparr>
   \<and> Create (Todo_of 9 ''y'') \<lparr>todos = [(5, Todo_of 5 ''x'')], nextID = 6\<rparr>
       = ((None, Todo_of 9 ''y''),
         \<lparr>todos = [(5, Todo_of 5 ''x''), (9, Todo_of 9 ''y'')], nextID = 10\<rparr>)
   \<and> sint (10 :: int64) = max (sint (6 :: int64)) (sint (9 :: int64) + 1)
   \<and> \<not> Exists 10
       \<lparr>todos = [(5, Todo_of 5 ''x''), (9, Todo_of 9 ''y'')], nextID = 10\<rparr>
   \<and> \<not> Exists MaxInt64 \<lparr>todos = [(5, Todo_of 5 ''x'')], nextID = 6\<rparr>
   \<and> MaxInt64 = 0x7FFFFFFFFFFFFFFF
   \<and> Create (Todo_of MaxInt64 ''z'') \<lparr>todos = [(5, Todo_of 5 ''x'')], nextID = 6\<rparr>
       = ((None, Todo_of MaxInt64 ''z''),
         \<lparr>todos = [(5, Todo_of 5 ''x''), (MaxInt64, Todo_of MaxInt64 ''z'')],
           nextID = 0x8000000000000000\<rparr>)
   \<and> sint (0x8000000000000000 :: int64) = - 9223372036854775808"
  using
    Create_with_id
      [of "Todo_of 5 ''y''" "\<lparr>todos = [(5, Todo_of 5 ''x'')], nextID = 6\<rparr>"]
    Create_with_id
      [of "Todo_of 9 ''y''" "\<lparr>todos = [(5, Todo_of 5 ''x'')], nextID = 6\<rparr>"]
    Create_with_id
      [of "Todo_of MaxInt64 ''z''" "\<lparr>todos = [(5, Todo_of 5 ''x'')], nextID = 6\<rparr>"]
  by (simp add: Create_def Let_def word_sle_eq word_sless_alt Exists_def below_next_def
      MaxInt64_def)

theorem Create_with_max_id_counterexample:
  "Create (Todo_of 0x7FFFFFFFFFFFFFFF ''x'') NewInMemoryTodoRepository
       = ((None, Todo_of 0x7FFFFFFFFFFFFFFF ''x''), \<lparr>todos =
         [(0x7FFFFFFFFFFFFFFF, (Todo_of 0x7FFFFFFFFFFFFFFF ''x''))], nextID =
         0x8000000000000000\<rparr>)
   \<and> sint (0x8000000000000000 :: int64) = - 9223372036854775808
   \<and> max (sint (nextID NewInMemoryTodoRepository)) (sint (0x7FFFFFFFFFFFFFFF :: int64) + 1)
       = 9223372036854775808
   \<and> nextID (run [OpCreate (Todo_of 0x7FFFFFFFFFFFFFFF ''x''), OpCreate
       (Todo_of 0x7FFFFFFFFFFFFFFE ''y'')] NewInMemoryTodoRepository)
       = 0x7FFFFFFFFFFFFFFF
   \<and> Exists 0x7FFFFFFFFFFFFFFF (run [OpCreate (Todo_of 0x7FFFFFFFFFFFFFFF ''x''), OpCreate
       (Todo_of 0x7FFFFFFFFFFFFFFE ''y'')] NewInMemoryTodoRepository)"
  by (simp add: Create_def NewInMemoryTodoRepository_def Let_def word_sle_eq Exists_def)

section \<open>The invariant of the store\<close>

text \<open>
  C6, as the code has it. The invariant \<open>store_inv\<close> (distinct keys, every record stored
  under its own id, every stored id positive, the counter positive) is kept by \<open>Update\<close> and
  by \<open>Delete\<close>, and by \<open>Create\<close> when the record's id is not negative and the counter does not
  overflow. The reading operations return no new state. \<open>Create\<close> stores a negative
  caller-supplied id as it is given, and after an overflow of the counter it can store a
  record under the id 0; the counterexample shows both.
\<close>

theorem storage_ops_keep_store_inv:
  assumes "store_inv r"
  shows "(0 \<le>s ID t \<and> \<not> wraps t r \<longrightarrow> store_inv (snd (Create t r)))
       \<and> store_inv (snd (Update t r)) \<and> store_inv (snd (Delete i r))"
  using Create_inv [OF assms] Update_inv [OF assms] Delete_inv [OF assms] by blast

theorem storage_ops_keep_store_inv_witness:
  "store_inv \<lparr>todos = [(1, Todo_of 1 ''x'')], nextID = 2\<rparr>
   \<and> 0 \<le>s ID (Todo_of 0 ''y'')
   \<and> \<not> wraps (Todo_of 0 ''y'') \<lparr>todos = [(1, Todo_of 1 ''x'')], nextID = 2\<rparr>
   \<and> snd (Create (Todo_of 0 ''y'') \<lparr>todos = [(1, Todo_of 1 ''x'')], nextID = 2\<rparr>)
       = \<lparr>todos = [(1, Todo_of 1 ''x''), (2, Todo_of 2 ''y'')], nextID = 3\<rparr>
   \<and> store_inv \<lparr>todos = [(1, Todo_of 1 ''x''), (2, Todo_of 2 ''y'')], nextID = 3\<rparr>
   \<and> snd (Update \<lparr>ID = 1, Title = ''z'', Description = [], Completed = True\<rparr>
       \<lparr>todos = [(1, Todo_of 1 ''x'')], nextID = 2\<rparr>)
       = \<lparr>todos = [(1, \<lparr>ID = 1, Title = ''z'', Description = [], Completed = True\<rparr>)], nextID =
         2\<rparr>
   \<and> store_inv \<lparr>todos = [(1, \<lparr>ID = 1, Title = ''z'', Description = [], Completed = True\<rparr>)],
       nextID = 2\<rparr>
   \<and> snd (Delete 1 \<lparr>todos = [(1, Todo_of 1 ''x'')], nextID = 2\<rparr>) = \<lparr>todos = [], nextID = 2\<rparr>
   \<and> store_inv \<lparr>todos = [], nextID = 2\<rparr>"
proof -
  have i: "store_inv \<lparr>todos = [(1, Todo_of 1 ''x'')], nextID = 2\<rparr>"
    by (simp add: store_inv_def word_sless_alt)
  show ?thesis
    using i
      storage_ops_keep_store_inv [OF i, of "(Todo_of 0 ''y'')" "1"]
      storage_ops_keep_store_inv
          [OF i, of "\<lparr>ID = 1, Title = ''z'', Description = [], Completed = True\<rparr>" "1"]
    by (simp add: Create_def Update_def Delete_def Let_def wraps_def MaxInt64_def word_sle_eq
        word_sless_alt)
qed

theorem negative_id_counterexample:
  "store_inv NewInMemoryTodoRepository
   \<and> snd (Create (Todo_of (- 5) ''x'') NewInMemoryTodoRepository)
       = \<lparr>todos = [(- 5, Todo_of (- 5) ''x'')], nextID = 1\<rparr>
   \<and> \<not> 0 <s (- 5 :: int64)
   \<and> \<not> store_inv (snd (Create (Todo_of (- 5) ''x'') NewInMemoryTodoRepository))
   \<and> run [OpCreate (Todo_of 0x7FFFFFFFFFFFFFFF ''a''), OpCreate (Todo_of (- 1) ''b''), OpCreate
       (Todo_of 0 ''c'')] NewInMemoryTodoRepository
       = \<lparr>todos = [(0x7FFFFFFFFFFFFFFF, Todo_of 0x7FFFFFFFFFFFFFFF ''a''),
         (- 1, Todo_of (- 1) ''b''), (0, Todo_of 0 ''c'')], nextID = 1\<rparr>"
  by (simp add: store_inv_def Create_def NewInMemoryTodoRepository_def Let_def word_sle_eq
      word_sless_alt)

section \<open>Validation gate\<close>

text \<open>
  C4. For a record with an empty title, \<open>CreateTodo\<close> and \<open>UpdateTodo\<close> fail with the error of
  \<open>Validate\<close> (the invalid-input error, message \<open>title cannot be empty\<close>) and return the state
  they were given. This holds for every implementation of the repository interface and every
  state, so no method of the storage is called.
\<close>

theorem empty_title_rejected:
  assumes "Title todo = []"
  shows "TodoUseCase_CreateTodo repo todo s = (Inl (errors_New ''title cannot be empty''), s)
       \<and> TodoUseCase_UpdateTodo repo i todo s = (Inl (errors_New ''title cannot be empty''), s)"
  using assms by (simp add: TodoUseCase_CreateTodo_def TodoUseCase_UpdateTodo_def Validate_def)

theorem empty_title_rejected_witness:
  "Title \<lparr>ID = 1, Title = [], Description = ''d'', Completed = False\<rparr> = []
   \<and> TodoUseCase_CreateTodo InMemory
       \<lparr>ID = 1, Title = [], Description = ''d'', Completed = False\<rparr> NewInMemoryTodoRepository
       = (Inl (errors_New ''title cannot be empty''), NewInMemoryTodoRepository)
   \<and> TodoUseCase_UpdateTodo InMemory 1
       \<lparr>ID = 1, Title = [], Description = ''d'', Completed = False\<rparr> NewInMemoryTodoRepository
       = (Inl (errors_New ''title cannot be empty''), NewInMemoryTodoRepository)"
  using empty_title_rejected [of "\<lparr>ID = 1, Title = [], Description = ''d'', Completed = False\<rparr>"
      InMemory NewInMemoryTodoRepository 1]
  by simp

section \<open>UpdateTodo\<close>

text \<open>
  C8. \<open>UpdateTodo i todo\<close> validates first: a validation error is returned whatever the
  repository is, without any call to it. Then it asks \<open>Exists i\<close> and fails with
  \<open>ErrTodoNotFound\<close> if the answer is no, without calling \<open>Update\<close>. Otherwise it calls
  \<open>Update\<close> with the payload whose id is replaced by \<open>i\<close>, whatever id the payload carried. On
  the in-memory repository: for an absent id the result is \<open>ErrTodoNotFound\<close> and the store
  is unchanged; for a present id the call succeeds, returns the payload with id \<open>i\<close>, and the
  store afterwards holds exactly that record at \<open>i\<close> (its id field is \<open>i\<close>), all other entries
  and the counter being as before.
\<close>

theorem UpdateTodo_steps:
  "(Validate todo = Some e \<longrightarrow> TodoUseCase_UpdateTodo repo i todo s = (Inl e, s))
   \<and> (Validate todo = None \<and> repo_Exists repo i s = (False, s1) \<longrightarrow>
        TodoUseCase_UpdateTodo repo i todo s = (Inl ErrTodoNotFound, s1))
   \<and> (Validate todo = None \<and> repo_Exists repo i s = (True, s1) \<longrightarrow>
        TodoUseCase_UpdateTodo repo i todo s =
          (case repo_Update repo (todo\<lparr>ID := i\<rparr>) s1 of
             (Some err, s2) \<Rightarrow> (Inl err, s2)
           | (None, s2) \<Rightarrow> (Inr (todo\<lparr>ID := i\<rparr>), s2)))
   \<and> (Validate todo = None \<and> \<not> Exists i r \<longrightarrow>
        TodoUseCase_UpdateTodo InMemory i todo r = (Inl ErrTodoNotFound, r))
   \<and> (Validate todo = None \<and> Exists i r \<longrightarrow>
        fst (TodoUseCase_UpdateTodo InMemory i todo r) = Inr (todo\<lparr>ID := i\<rparr>)
        \<and> map_of (todos (snd (TodoUseCase_UpdateTodo InMemory i todo r)))
            = (map_of (todos r))(i \<mapsto> todo\<lparr>ID := i\<rparr>)
        \<and> nextID (snd (TodoUseCase_UpdateTodo InMemory i todo r)) = nextID r
        \<and> GetByID i (snd (TodoUseCase_UpdateTodo InMemory i todo r)) = Inr (todo\<lparr>ID := i\<rparr>)
        \<and> ID (todo\<lparr>ID := i\<rparr>) = i)"
proof (intro conjI impI)
  assume "Validate todo = Some e"
  thus "TodoUseCase_UpdateTodo repo i todo s = (Inl e, s)"
    by (simp add: TodoUseCase_UpdateTodo_def)
next
  assume "Validate todo = None \<and> repo_Exists repo i s = (False, s1)"
  thus "TodoUseCase_UpdateTodo repo i todo s = (Inl ErrTodoNotFound, s1)"
    by (simp add: TodoUseCase_UpdateTodo_def)
next
  assume "Validate todo = None \<and> repo_Exists repo i s = (True, s1)"
  thus "TodoUseCase_UpdateTodo repo i todo s =
          (case repo_Update repo (todo\<lparr>ID := i\<rparr>) s1 of
             (Some err, s2) \<Rightarrow> (Inl err, s2)
           | (None, s2) \<Rightarrow> (Inr (todo\<lparr>ID := i\<rparr>), s2))"
    by (simp add: TodoUseCase_UpdateTodo_def Let_def split: prod.splits option.splits)
next
  assume "Validate todo = None \<and> \<not> Exists i r"
  thus "TodoUseCase_UpdateTodo InMemory i todo r = (Inl ErrTodoNotFound, r)"
    by (simp add: TodoUseCase_UpdateTodo_def InMemory_sel)
next
  assume a: "Validate todo = None \<and> Exists i r"
  hence t: "Title todo \<noteq> []" by (simp add: Validate_def split: if_splits)
  show "fst (TodoUseCase_UpdateTodo InMemory i todo r) = Inr (todo\<lparr>ID := i\<rparr>)"
    using a by (simp add: UpdateTodo_InMemory [OF t])
  show "map_of (todos (snd (TodoUseCase_UpdateTodo InMemory i todo r)))
            = (map_of (todos r))(i \<mapsto> todo\<lparr>ID := i\<rparr>)"
    using a by (simp add: UpdateTodo_InMemory [OF t] update_conv')
  show "nextID (snd (TodoUseCase_UpdateTodo InMemory i todo r)) = nextID r"
    using a by (simp add: UpdateTodo_InMemory [OF t])
  show "GetByID i (snd (TodoUseCase_UpdateTodo InMemory i todo r)) = Inr (todo\<lparr>ID := i\<rparr>)"
    using a by (simp add: UpdateTodo_InMemory [OF t] GetByID_def update_conv')
  show "ID (todo\<lparr>ID := i\<rparr>) = i" by simp
qed

theorem UpdateTodo_steps_witness:
  "Validate (Todo_of 9 []) = Some (errors_New ''title cannot be empty'')
   \<and> TodoUseCase_UpdateTodo InMemory 1 (Todo_of 9 [])
       \<lparr>todos = [(1, Todo_of 1 ''x'')], nextID = 2\<rparr>
       = (Inl (errors_New ''title cannot be empty''),
         \<lparr>todos = [(1, Todo_of 1 ''x'')], nextID = 2\<rparr>)
   \<and> Validate \<lparr>ID = 9, Title = ''z'', Description = [], Completed = True\<rparr> = None
   \<and> \<not> Exists 7 \<lparr>todos = [(1, Todo_of 1 ''x'')], nextID = 2\<rparr>
   \<and> TodoUseCase_UpdateTodo InMemory 7
       \<lparr>ID = 9, Title = ''z'', Description = [], Completed = True\<rparr>
       \<lparr>todos = [(1, Todo_of 1 ''x'')], nextID = 2\<rparr>
       = (Inl ErrTodoNotFound, \<lparr>todos = [(1, Todo_of 1 ''x'')], nextID = 2\<rparr>)
   \<and> Exists 1 \<lparr>todos = [(1, Todo_of 1 ''x'')], nextID = 2\<rparr>
   \<and> TodoUseCase_UpdateTodo InMemory 1
       \<lparr>ID = 9, Title = ''z'', Description = [], Completed = True\<rparr>
       \<lparr>todos = [(1, Todo_of 1 ''x'')], nextID = 2\<rparr>
       = (Inr \<lparr>ID = 1, Title = ''z'', Description = [], Completed = True\<rparr>, \<lparr>todos =
         [(1, \<lparr>ID = 1, Title = ''z'', Description = [], Completed = True\<rparr>)], nextID = 2\<rparr>)"
  using UpdateTodo_steps [where todo = "(Todo_of 9 [])" and e =
      "errors_New ''title cannot be empty''" and repo = InMemory and i = 1 and s =
      "\<lparr>todos = [(1, Todo_of 1 ''x'')], nextID = 2\<rparr>" and r =
      "\<lparr>todos = [(1, Todo_of 1 ''x'')], nextID = 2\<rparr>" and ?s1.0 =
      "\<lparr>todos = [(1, Todo_of 1 ''x'')], nextID = 2\<rparr>"]
    UpdateTodo_steps [where todo = "\<lparr>ID = 9, Title = ''z'', Description = [], Completed = True\<rparr>"
        and repo = InMemory and i = 7 and s = "\<lparr>todos = [(1, Todo_of 1 ''x'')], nextID = 2\<rparr>" and
        r = "\<lparr>todos = [(1, Todo_of 1 ''x'')], nextID = 2\<rparr>" and ?s1.0 =
        "\<lparr>todos = [(1, Todo_of 1 ''x'')], nextID = 2\<rparr>"]
    UpdateTodo_steps [where todo = "\<lparr>ID = 9, Title = ''z'', Description = [], Completed = True\<rparr>"
        and repo = InMemory and i = 1 and s = "\<lparr>todos = [(1, Todo_of 1 ''x'')], nextID = 2\<rparr>" and
        r = "\<lparr>todos = [(1, Todo_of 1 ''x'')], nextID = 2\<rparr>" and ?s1.0 =
        "\<lparr>todos = [(1, Todo_of 1 ''x'')], nextID = 2\<rparr>"]
  by (simp add: Validate_def Exists_def InMemory_sel Update_def)

section \<open>GetAll on an empty store\<close>

text \<open>
  C9. On an empty store \<open>GetAll\<close> returns an empty slice that is not nil, and a \<open>GET\<close> request
  on the collection route is answered with status 200 and the body \<open>[]\<close>, the empty JSON
  array, not \<open>null\<close>; the store is unchanged.
\<close>

theorem GetAll_empty:
  assumes "todos r = []" and "Method req = ''GET''"
  shows "GetAll r = Inr (Some [])
       \<and> HandleTodos dec InMemory req r
           = (\<lparr>StatusCode = 200, ContentType = Some ''application/json'',
                Written = Some (JArray [])\<rparr>, r)"
  using assms
  by (simp add: GetAll_def HandleTodos_def TodoHandler_GetAllTodos_def TodoUseCase_GetAllTodos_def
      InMemory_sel respondWithJSON_def)


theorem GetAll_empty_witness:
  "todos NewInMemoryTodoRepository = []
   \<and> GetAll NewInMemoryTodoRepository = Inr (Some [])
   \<and> HandleTodos (\<lambda>b. Inl ErrSyntax) InMemory \<lparr>Method = ''GET'', Path = ''/todos'', Body = []\<rparr>
       NewInMemoryTodoRepository
       = (\<lparr>StatusCode = 200, ContentType = Some ''application/json'', Written = Some
         (JArray [])\<rparr>, NewInMemoryTodoRepository)"
proof -
  have e: "todos NewInMemoryTodoRepository = []"
    by (simp add: NewInMemoryTodoRepository_def)
  show ?thesis
    using e
      GetAll_empty
          [OF e, of "\<lparr>Method = ''GET'', Path = ''/todos'', Body = []\<rparr>" "\<lambda>b. Inl ErrSyntax"]
    by simp
qed

section \<open>Status codes\<close>

text \<open>
  C7, as the code has it. Every answer below is given in full: the status code, the content
  type and the body written. The outcomes are tested in a fixed order, and the first that
  applies decides the code. On the collection route a method other than \<open>POST\<close> and \<open>GET\<close>
  gives 405. On the item route the id is parsed first: a path whose id does not parse, in
  particular a segment after \<open>/todos/\<close> that is not an integer, gives 400 for every method,
  also for one the route does not support; only once the id has been parsed does such a
  method give 405. A body that does not decode gives 400 with the message
  \<open>Invalid request body\<close>, whatever the repository is, so before validation and storage. A
  decoded record with an empty title gives 400 with the message of the validation, on a
  \<open>PUT\<close> also when the store does not hold the id. An id that the store does not hold gives
  404 on \<open>GET\<close>, on \<open>DELETE\<close> and on a \<open>PUT\<close> with a decodable body and a title. A \<open>POST\<close> of a
  valid record whose id is not 0 and is occupied gives 409. The counterexample shows the two
  requests where two rows of the table apply and the code answers 400: an unsupported method
  on a path with a non-integer id, and an update with an empty title of an id that the store
  does not hold.
\<close>

theorem status_mapping:
  "(Method req \<noteq> ''POST'' \<and> Method req \<noteq> ''GET'' \<longrightarrow>
      HandleTodos dec repo req s =
        (\<lparr>StatusCode = 405, ContentType = Some ''application/json'',
          Written = Some (JObject [(''error'', JString ''Method not allowed'')])\<rparr>, s))
   \<and> (extractIDFromPath (Path req) = Inr i
        \<and> Method req \<noteq> ''GET'' \<and> Method req \<noteq> ''PUT'' \<and> Method req \<noteq> ''DELETE'' \<longrightarrow>
      HandleTodoByID dec repo req s =
        (\<lparr>StatusCode = 405, ContentType = Some ''application/json'',
          Written = Some (JObject [(''error'', JString ''Method not allowed'')])\<rparr>, s))
   \<and> (extractIDFromPath (Path req) = Inr i \<and> \<not> Exists i r
        \<and> (Method req = ''GET'' \<or> Method req = ''DELETE''
            \<or> Method req = ''PUT'' \<and> dec (Body req) = Inr todo \<and> Title todo \<noteq> []) \<longrightarrow>
      HandleTodoByID dec InMemory req r =
        (\<lparr>StatusCode = 404, ContentType = Some ''application/json'',
          Written = Some (JObject [(''error'', JString ''Todo not found'')])\<rparr>, r))
   \<and> (Method req = ''POST'' \<and> dec (Body req) = Inr todo \<and> Title todo \<noteq> []
        \<and> ID todo \<noteq> 0 \<and> Exists (ID todo) r \<longrightarrow>
      HandleTodos dec InMemory req r =
        (\<lparr>StatusCode = 409, ContentType = Some ''application/json'',
          Written = Some (JObject [(''error'', JString ''todo with this ID already exists'')])\<rparr>, r))
   \<and> (dec (Body req) = Inl e \<and> Method req = ''POST'' \<longrightarrow>
      HandleTodos dec repo req s =
        (\<lparr>StatusCode = 400, ContentType = Some ''application/json'',
          Written = Some (JObject [(''error'', JString ''Invalid request body'')])\<rparr>, s))
   \<and> (dec (Body req) = Inl e \<and> Method req = ''PUT'' \<and> extractIDFromPath (Path req) = Inr i \<longrightarrow>
      HandleTodoByID dec repo req s =
        (\<lparr>StatusCode = 400, ContentType = Some ''application/json'',
          Written = Some (JObject [(''error'', JString ''Invalid request body'')])\<rparr>, s))
   \<and> (dec (Body req) = Inr todo \<and> Title todo = [] \<and> Method req = ''POST'' \<longrightarrow>
      HandleTodos dec repo req s =
        (\<lparr>StatusCode = 400, ContentType = Some ''application/json'',
          Written = Some (JObject [(''error'', JString ''title cannot be empty'')])\<rparr>, s))
   \<and> (dec (Body req) = Inr todo \<and> Title todo = [] \<and> Method req = ''PUT''
        \<and> extractIDFromPath (Path req) = Inr i \<longrightarrow>
      HandleTodoByID dec repo req s =
        (\<lparr>StatusCode = 400, ContentType = Some ''application/json'',
          Written = Some (JObject [(''error'', JString ''title cannot be empty'')])\<rparr>, s))
   \<and> (extractIDFromPath (Path req) = Inl e \<longrightarrow>
      HandleTodoByID dec repo req s =
        (\<lparr>StatusCode = 400, ContentType = Some ''application/json'',
          Written = Some (JObject [(''error'', JString ''Invalid todo ID'')])\<rparr>, s))
   \<and> (seg \<noteq> [] \<and> CHR ''/'' \<notin> set seg \<and> strconv_Atoi seg = Inl e \<longrightarrow>
      HandleTodoByID dec repo \<lparr>Method = m, Path = ''/todos/'' @ seg, Body = b\<rparr> s =
        (\<lparr>StatusCode = 400, ContentType = Some ''application/json'',
          Written = Some (JObject [(''error'', JString ''Invalid todo ID'')])\<rparr>, s))"
  unfolding respondWithError_eq [symmetric] by (rule handlers_outcomes)

theorem status_mapping_witness:
  "StatusCode (fst (HandleTodos dec0 InMemory
       \<lparr>Method = ''PATCH'', Path = ''/todos'', Body = []\<rparr> r5)) = 405
   \<and> StatusCode (fst (HandleTodoByID dec0 InMemory
       \<lparr>Method = ''PATCH'', Path = ''/todos/5'', Body = []\<rparr> r5)) = 405
   \<and> \<not> Exists 9 r5
   \<and> StatusCode (fst (HandleTodoByID dec0 InMemory
       \<lparr>Method = ''GET'', Path = ''/todos/9'', Body = []\<rparr> r5)) = 404
   \<and> StatusCode (fst (HandleTodoByID dec0 InMemory
       \<lparr>Method = ''DELETE'', Path = ''/todos/9'', Body = []\<rparr> r5)) = 404
   \<and> StatusCode (fst (HandleTodoByID dec0 InMemory
       \<lparr>Method = ''PUT'', Path = ''/todos/9'', Body = ''valid5''\<rparr> r5)) = 404
   \<and> Exists 5 r5
   \<and> StatusCode (fst (HandleTodos dec0 InMemory
       \<lparr>Method = ''POST'', Path = ''/todos'', Body = ''valid5''\<rparr> r5)) = 409
   \<and> dec0 ''invalid json'' = Inl (errors_New ''invalid character'')
   \<and> StatusCode (fst (HandleTodos dec0 InMemory
       \<lparr>Method = ''POST'', Path = ''/todos'', Body = ''invalid json''\<rparr> r5)) = 400
   \<and> StatusCode (fst (HandleTodoByID dec0 InMemory
       \<lparr>Method = ''PUT'', Path = ''/todos/5'', Body = ''invalid json''\<rparr> r5)) = 400
   \<and> StatusCode (fst (HandleTodos dec0 InMemory
       \<lparr>Method = ''POST'', Path = ''/todos'', Body = ''{}''\<rparr> r5)) = 400
   \<and> StatusCode (fst (HandleTodoByID dec0 InMemory
       \<lparr>Method = ''PUT'', Path = ''/todos/5'', Body = ''{}''\<rparr> r5)) = 400
   \<and> extractIDFromPath ''/todos/abc'' = Inl ErrSyntax
   \<and> StatusCode (fst (HandleTodoByID dec0 InMemory
       \<lparr>Method = ''GET'', Path = ''/todos/abc'', Body = []\<rparr> r5)) = 400"
  using
    status_mapping [where req = "\<lparr>Method = ''PATCH'', Path = ''/todos'', Body = []\<rparr>"
      and dec = dec0 and repo = InMemory and s = r5 and r = r5 and i = 5
      and seg = "''abc''" and e = "ErrSyntax" and m = "''GET''" and b = "[]"
      and todo = "Todo_of 5 ''x''"]
    status_mapping [where req = "\<lparr>Method = ''GET'', Path = ''/todos/abc'', Body = []\<rparr>"
      and dec = dec0 and repo = InMemory and s = r5 and r = r5 and i = 5
      and seg = "''abc''" and e = "ErrSyntax" and m = "''GET''" and b = "[]"
      and todo = "Todo_of 5 ''x''"]
    status_mapping [where req = "\<lparr>Method = ''PATCH'', Path = ''/todos/5'', Body = []\<rparr>"
      and dec = dec0 and repo = InMemory and s = r5 and r = r5 and i = 5
      and seg = "''abc''" and e = "ErrSyntax" and m = "''GET''" and b = "[]"
      and todo = "Todo_of 5 ''x''"]
    status_mapping [where req = "\<lparr>Method = ''GET'', Path = ''/todos/9'', Body = []\<rparr>"
      and dec = dec0 and repo = InMemory and s = r5 and r = r5 and i = 9
      and seg = "''abc''" and e = "ErrSyntax" and m = "''GET''" and b = "[]"
      and todo = "Todo_of 5 ''x''"]
    status_mapping [where req = "\<lparr>Method = ''DELETE'', Path = ''/todos/9'', Body = []\<rparr>"
      and dec = dec0 and repo = InMemory and s = r5 and r = r5 and i = 9
      and seg = "''abc''" and e = "ErrSyntax" and m = "''GET''" and b = "[]"
      and todo = "Todo_of 5 ''x''"]
    status_mapping [where req = "\<lparr>Method = ''PUT'', Path = ''/todos/9'', Body = ''valid5''\<rparr>"
      and dec = dec0 and repo = InMemory and s = r5 and r = r5 and i = 9
      and seg = "''abc''" and e = "ErrSyntax" and m = "''GET''" and b = "[]"
      and todo = "Todo_of 5 ''x''"]
    status_mapping [where req = "\<lparr>Method = ''POST'', Path = ''/todos'', Body = ''valid5''\<rparr>"
      and dec = dec0 and repo = InMemory and s = r5 and r = r5 and i = 9
      and seg = "''abc''" and e = "ErrSyntax" and m = "''GET''" and b = "[]"
      and todo = "Todo_of 5 ''x''"]
    status_mapping [where req = "\<lparr>Method = ''POST'', Path = ''/todos'', Body = ''invalid json''\<rparr>"
      and dec = dec0 and repo = InMemory and s = r5 and r = r5 and i = 9
      and seg = "''abc''" and e = "errors_New ''invalid character''" and m = "''GET''" and b = "[]"
      and todo = "Todo_of 5 ''x''"]
    status_mapping [where req = "\<lparr>Method = ''PUT'', Path = ''/todos/5'', Body = ''invalid json''\<rparr>"
      and dec = dec0 and repo = InMemory and s = r5 and r = r5 and i = 5
      and seg = "''abc''" and e = "errors_New ''invalid character''" and m = "''GET''" and b = "[]"
      and todo = "Todo_of 5 ''x''"]
    status_mapping [where req = "\<lparr>Method = ''POST'', Path = ''/todos'', Body = ''{}''\<rparr>"
      and dec = dec0 and repo = InMemory and s = r5 and r = r5 and i = 5
      and seg = "''abc''" and e = "ErrSyntax" and m = "''GET''" and b = "[]"
      and todo = "Todo_of 0 []"]
    status_mapping [where req = "\<lparr>Method = ''PUT'', Path = ''/todos/5'', Body = ''{}''\<rparr>"
      and dec = dec0 and repo = InMemory and s = r5 and r = r5 and i = 5
      and seg = "''abc''" and e = "ErrSyntax" and m = "''GET''" and b = "[]"
      and todo = "Todo_of 0 []"]
  by (simp add: example_paths dec0_def r5_def Exists_def HandleTodos_def HandleTodoByID_def
      TodoHandler_CreateTodo_def TodoHandler_GetTodoByID_def TodoHandler_UpdateTodo_def
      TodoHandler_DeleteTodo_def TodoUseCase_CreateTodo_def TodoUseCase_GetTodoByID_def
      TodoUseCase_UpdateTodo_def TodoUseCase_DeleteTodo_def InMemory_sel Validate_def
      GetByID_def Delete_def Update_def Create_def respondWithError_def respondWithJSON_def)

theorem status_precedence_counterexample:
  "extractIDFromPath ''/todos/abc'' = Inl ErrSyntax
   \<and> StatusCode (fst (HandleTodoByID dec0 InMemory
       \<lparr>Method = ''PATCH'', Path = ''/todos/abc'', Body = []\<rparr> r5)) = 400
   \<and> extractIDFromPath ''/todos/9'' = Inr 9
   \<and> \<not> Exists 9 r5
   \<and> dec0 ''{}'' = Inr (Todo_of 0 [])
   \<and> StatusCode (fst (HandleTodoByID dec0 InMemory
       \<lparr>Method = ''PUT'', Path = ''/todos/9'', Body = ''{}''\<rparr> r5)) = 400"
  by (simp add: example_paths dec0_def r5_def Exists_def HandleTodoByID_def
      TodoHandler_UpdateTodo_def TodoUseCase_UpdateTodo_def Validate_def
      respondWithError_def respondWithJSON_def)

section \<open>The id of the item route\<close>

text \<open>
  C10. Only the second segment of the path decides the id. For every integer \<open>n\<close>, written in
  decimal, and any text after a further slash, the id parsed from \<open>/todos/n/...\<close> is \<open>n\<close>, as
  it is from \<open>/todos/n\<close>. Every segment \<open>seg\<close> that \<open>strconv.Atoi\<close> accepts with the value \<open>k\<close>
  (\<open>0\<close>, \<open>-7\<close>, \<open>+5\<close> and \<open>007\<close> among them) passes the 400 gate, with or without further
  segments: a \<open>GET\<close> answers with the outcome of the repository's \<open>GetByID\<close> at \<open>k\<close>, a
  \<open>DELETE\<close> with that of its \<open>Delete\<close> at \<open>k\<close>, and a \<open>PUT\<close> whose body decodes with that of
  \<open>UpdateTodo\<close> at \<open>k\<close>, which for a record with a title asks the repository whether \<open>k\<close>
  exists and then updates the record under the id \<open>k\<close>. On the in-memory store an id that is
  not held gives 404 on \<open>GET\<close> and \<open>DELETE\<close>.
\<close>

theorem item_route_id:
  "extractIDFromPath (''/todos/'' @ Itoa n @ ''/'' @ rest) = Inr n
   \<and> extractIDFromPath (''/todos/'' @ Itoa n) = Inr n
   \<and> (strconv_Atoi seg = Inr k \<longrightarrow>
        extractIDFromPath (''/todos/'' @ seg @ ''/'' @ rest) = Inr k
        \<and> extractIDFromPath (''/todos/'' @ seg) = Inr k
        \<and> (Path req = ''/todos/'' @ seg @ ''/'' @ rest \<or> Path req = ''/todos/'' @ seg \<longrightarrow>
             HandleTodoByID dec repo req s =
               (if Method req = ''GET'' then
                  (case repo_GetByID repo k s of
                     (Inl err, s') \<Rightarrow>
                       (if err = ErrTodoNotFound then
                          \<lparr>StatusCode = 404, ContentType = Some ''application/json'',
                           Written = Some (JObject [(''error'', JString ''Todo not found'')])\<rparr>
                        else
                          \<lparr>StatusCode = 500, ContentType = Some ''application/json'',
                           Written = Some (JObject [(''error'', JString ''Failed to fetch todo'')])\<rparr>,
                        s')
                   | (Inr t, s') \<Rightarrow>
                       (\<lparr>StatusCode = 200, ContentType = Some ''application/json'',
                         Written = Some (Todo_json t)\<rparr>,
                        s'))
                else if Method req = ''PUT'' then
                  (case dec (Body req) of
                     Inl err \<Rightarrow>
                       (\<lparr>StatusCode = 400, ContentType = Some ''application/json'',
                         Written = Some (JObject [(''error'', JString ''Invalid request body'')])\<rparr>,
                        s)
                   | Inr t \<Rightarrow>
                       (case TodoUseCase_UpdateTodo repo k t s of
                          (Inl err, s') \<Rightarrow>
                            (if err = ErrTodoNotFound then
                               \<lparr>StatusCode = 404, ContentType = Some ''application/json'',
                                Written = Some (JObject [(''error'', JString ''Todo not found'')])\<rparr>
                             else
                               \<lparr>StatusCode = 400, ContentType = Some ''application/json'',
                                Written = Some (JObject [(''error'', JString (Error err))])\<rparr>,
                             s')
                        | (Inr u, s') \<Rightarrow>
                            (\<lparr>StatusCode = 200, ContentType = Some ''application/json'',
                              Written = Some (Todo_json u)\<rparr>,
                             s')))
                else if Method req = ''DELETE'' then
                  (case repo_Delete repo k s of
                     (Some err, s') \<Rightarrow>
                       (if err = ErrTodoNotFound then
                          \<lparr>StatusCode = 404, ContentType = Some ''application/json'',
                           Written = Some (JObject [(''error'', JString ''Todo not found'')])\<rparr>
                        else
                          \<lparr>StatusCode = 500, ContentType = Some ''application/json'',
                           Written = Some (JObject [(''error'', JString ''Failed to delete todo'')])\<rparr>,
                        s')
                   | (None, s') \<Rightarrow>
                       (\<lparr>StatusCode = 204, ContentType = None, Written = None\<rparr>, s'))
                else
                  (\<lparr>StatusCode = 405, ContentType = Some ''application/json'',
                    Written = Some (JObject [(''error'', JString ''Method not allowed'')])\<rparr>,
                   s))
             \<and> (Method req = ''PUT'' \<and> dec (Body req) = Inr todo \<and> Title todo \<noteq> [] \<longrightarrow>
                  HandleTodoByID dec repo req s =
                    (case repo_Exists repo k s of
                       (False, s1) \<Rightarrow>
                         (\<lparr>StatusCode = 404, ContentType = Some ''application/json'',
                           Written = Some (JObject [(''error'', JString ''Todo not found'')])\<rparr>,
                          s1)
                     | (True, s1) \<Rightarrow>
                         (case repo_Update repo (todo\<lparr>ID := k\<rparr>) s1 of
                            (Some err, s2) \<Rightarrow>
                              (if err = ErrTodoNotFound then
                                 \<lparr>StatusCode = 404, ContentType = Some ''application/json'',
                                  Written = Some (JObject [(''error'', JString ''Todo not found'')])\<rparr>
                               else
                                 \<lparr>StatusCode = 400, ContentType = Some ''application/json'',
                                  Written = Some (JObject [(''error'', JString (Error err))])\<rparr>,
                               s2)
                          | (None, s2) \<Rightarrow>
                              (\<lparr>StatusCode = 200, ContentType = Some ''application/json'',
                                Written = Some (Todo_json (todo\<lparr>ID := k\<rparr>))\<rparr>,
                               s2))))
             \<and> (\<not> Exists k r \<and> (Method req = ''GET'' \<or> Method req = ''DELETE'') \<longrightarrow>
                  HandleTodoByID dec InMemory req r =
                    (\<lparr>StatusCode = 404, ContentType = Some ''application/json'',
                      Written = Some (JObject [(''error'', JString ''Todo not found'')])\<rparr>,
                     r))))
   \<and> strconv_Atoi ''0'' = Inr 0
   \<and> strconv_Atoi ''-7'' = Inr (- 7)
   \<and> strconv_Atoi ''+5'' = Inr 5
   \<and> strconv_Atoi ''007'' = Inr 7"
proof (intro conjI impI)
  have "extractIDFromPath (''/todos/'' @ Itoa n @ ''/'' @ rest) = strconv_Atoi (Itoa n)"
    using Itoa_chars [of n] by (intro extractID_segment) simp_all
  thus "extractIDFromPath (''/todos/'' @ Itoa n @ ''/'' @ rest) = Inr n"
    by (simp only: Atoi_Itoa)
  have "extractIDFromPath (''/todos/'' @ Itoa n) = strconv_Atoi (Itoa n)"
    using Itoa_chars [of n] by (intro extractID_last_segment) simp_all
  thus "extractIDFromPath (''/todos/'' @ Itoa n) = Inr n"
    by (simp only: Atoi_Itoa)
next
  assume a: "strconv_Atoi seg = Inr k"
  have "extractIDFromPath (''/todos/'' @ seg @ ''/'' @ rest) = strconv_Atoi seg"
    using Atoi_chars [OF a] by (intro extractID_segment) simp_all
  thus e1: "extractIDFromPath (''/todos/'' @ seg @ ''/'' @ rest) = Inr k"
    by (simp only: a)
  have "extractIDFromPath (''/todos/'' @ seg) = strconv_Atoi seg"
    using Atoi_chars [OF a] by (intro extractID_last_segment) simp_all
  thus e2: "extractIDFromPath (''/todos/'' @ seg) = Inr k"
    by (simp only: a)
  assume "Path req = ''/todos/'' @ seg @ ''/'' @ rest \<or> Path req = ''/todos/'' @ seg"
  hence p: "extractIDFromPath (Path req) = Inr k"
    using e1 e2 by (elim disjE) (simp_all only:)
  show "HandleTodoByID dec repo req s =
               (if Method req = ''GET'' then
                  (case repo_GetByID repo k s of
                     (Inl err, s') \<Rightarrow>
                       (if err = ErrTodoNotFound then
                          \<lparr>StatusCode = 404, ContentType = Some ''application/json'',
                           Written = Some (JObject [(''error'', JString ''Todo not found'')])\<rparr>
                        else
                          \<lparr>StatusCode = 500, ContentType = Some ''application/json'',
                           Written = Some (JObject [(''error'', JString ''Failed to fetch todo'')])\<rparr>,
                        s')
                   | (Inr t, s') \<Rightarrow>
                       (\<lparr>StatusCode = 200, ContentType = Some ''application/json'',
                         Written = Some (Todo_json t)\<rparr>,
                        s'))
                else if Method req = ''PUT'' then
                  (case dec (Body req) of
                     Inl err \<Rightarrow>
                       (\<lparr>StatusCode = 400, ContentType = Some ''application/json'',
                         Written = Some (JObject [(''error'', JString ''Invalid request body'')])\<rparr>,
                        s)
                   | Inr t \<Rightarrow>
                       (case TodoUseCase_UpdateTodo repo k t s of
                          (Inl err, s') \<Rightarrow>
                            (if err = ErrTodoNotFound then
                               \<lparr>StatusCode = 404, ContentType = Some ''application/json'',
                                Written = Some (JObject [(''error'', JString ''Todo not found'')])\<rparr>
                             else
                               \<lparr>StatusCode = 400, ContentType = Some ''application/json'',
                                Written = Some (JObject [(''error'', JString (Error err))])\<rparr>,
                             s')
                        | (Inr u, s') \<Rightarrow>
                            (\<lparr>StatusCode = 200, ContentType = Some ''application/json'',
                              Written = Some (Todo_json u)\<rparr>,
                             s')))
                else if Method req = ''DELETE'' then
                  (case repo_Delete repo k s of
                     (Some err, s') \<Rightarrow>
                       (if err = ErrTodoNotFound then
                          \<lparr>StatusCode = 404, ContentType = Some ''application/json'',
                           Written = Some (JObject [(''error'', JString ''Todo not found'')])\<rparr>
                        else
                          \<lparr>StatusCode = 500, ContentType = Some ''application/json'',
                           Written = Some (JObject [(''error'', JString ''Failed to delete todo'')])\<rparr>,
                        s')
                   | (None, s') \<Rightarrow>
                       (\<lparr>StatusCode = 204, ContentType = None, Written = None\<rparr>, s'))
                else
                  (\<lparr>StatusCode = 405, ContentType = Some ''application/json'',
                    Written = Some (JObject [(''error'', JString ''Method not allowed'')])\<rparr>,
                   s))"
    by (rule HandleTodoByID_operations [OF p])
  {
    assume "Method req = ''PUT'' \<and> dec (Body req) = Inr todo \<and> Title todo \<noteq> []"
    hence m: "Method req = ''PUT''" and d: "dec (Body req) = Inr todo" and t: "Title todo \<noteq> []"
      by simp_all
    show "HandleTodoByID dec repo req s =
                    (case repo_Exists repo k s of
                       (False, s1) \<Rightarrow>
                         (\<lparr>StatusCode = 404, ContentType = Some ''application/json'',
                           Written = Some (JObject [(''error'', JString ''Todo not found'')])\<rparr>,
                          s1)
                     | (True, s1) \<Rightarrow>
                         (case repo_Update repo (todo\<lparr>ID := k\<rparr>) s1 of
                            (Some err, s2) \<Rightarrow>
                              (if err = ErrTodoNotFound then
                                 \<lparr>StatusCode = 404, ContentType = Some ''application/json'',
                                  Written = Some (JObject [(''error'', JString ''Todo not found'')])\<rparr>
                               else
                                 \<lparr>StatusCode = 400, ContentType = Some ''application/json'',
                                  Written = Some (JObject [(''error'', JString (Error err))])\<rparr>,
                               s2)
                          | (None, s2) \<Rightarrow>
                              (\<lparr>StatusCode = 200, ContentType = Some ''application/json'',
                                Written = Some (Todo_json (todo\<lparr>ID := k\<rparr>))\<rparr>,
                               s2)))"
      unfolding HandleTodoByID_update [where dec = dec and todo = todo, OF p m d t]
      by (simp add: respondWithError_def respondWithJSON_def
          split: prod.splits bool.splits option.splits)
  }
  {
    assume b: "\<not> Exists k r \<and> (Method req = ''GET'' \<or> Method req = ''DELETE'')"
    hence ne: "\<not> Exists k r" by simp
    from b have "Method req = ''GET'' \<or> Method req = ''DELETE''" by simp
    hence "HandleTodoByID dec InMemory req r = (respondWithError 404 ''Todo not found'', r)"
      using GetTodoByID_absent [OF ne] DeleteTodo_absent [OF ne]
      by (auto simp: HandleTodoByID_parsed [OF p])
    thus "HandleTodoByID dec InMemory req r =
                    (\<lparr>StatusCode = 404, ContentType = Some ''application/json'',
                      Written = Some (JObject [(''error'', JString ''Todo not found'')])\<rparr>,
                     r)"
      by (simp only: respondWithError_eq)
  }
next
  show "strconv_Atoi ''0'' = Inr 0" by (rule Atoi_examples)
  show "strconv_Atoi ''-7'' = Inr (- 7)" by (rule Atoi_examples)
  show "strconv_Atoi ''+5'' = Inr 5" by (rule Atoi_examples)
  show "strconv_Atoi ''007'' = Inr 7" by (rule Atoi_examples)
qed

theorem item_route_id_witness:
  "strconv_Atoi ''-7'' = Inr (- 7)
   \<and> extractIDFromPath ''/todos/-7/anything/else'' = Inr (- 7)
   \<and> extractIDFromPath ''/todos/-7'' = Inr (- 7)
   \<and> \<not> Exists (- 7) NewInMemoryTodoRepository
   \<and> HandleTodoByID dec0 InMemory
       \<lparr>Method = ''GET'', Path = ''/todos/-7/anything/else'', Body = []\<rparr>
       NewInMemoryTodoRepository =
       (\<lparr>StatusCode = 404, ContentType = Some ''application/json'',
         Written = Some (JObject [(''error'', JString ''Todo not found'')])\<rparr>,
        NewInMemoryTodoRepository)
   \<and> strconv_Atoi ''+5'' = Inr 5
   \<and> extractIDFromPath ''/todos/+5'' = Inr 5
   \<and> HandleTodoByID dec0 InMemory \<lparr>Method = ''GET'', Path = ''/todos/+5'', Body = []\<rparr> r5 =
       (\<lparr>StatusCode = 200, ContentType = Some ''application/json'',
         Written = Some (Todo_json (Todo_of 5 ''a''))\<rparr>,
        r5)
   \<and> dec0 ''valid5'' = Inr (Todo_of 5 ''x'')
   \<and> HandleTodoByID dec0 InMemory
       \<lparr>Method = ''PUT'', Path = ''/todos/+5'', Body = ''valid5''\<rparr> r5 =
       (\<lparr>StatusCode = 200, ContentType = Some ''application/json'',
         Written = Some (Todo_json (Todo_of 5 ''x''))\<rparr>,
        \<lparr>todos = [(5, Todo_of 5 ''x'')], nextID = 6\<rparr>)
   \<and> Itoa 42 = ''42''
   \<and> extractIDFromPath ''/todos/42/anything/else'' = Inr 42
   \<and> extractIDFromPath ''/todos/42'' = Inr 42"
proof -
  have i: "Itoa 42 = ''42''"
    by (simp add: Itoa_def decimalDigits.simps char_of_def)
  show ?thesis
    using i
      item_route_id [where n = 42 and rest = "''anything/else''" and seg = "''-7''"
        and k = "- 7" and dec = dec0 and repo = InMemory
        and req = "\<lparr>Method = ''GET'', Path = ''/todos/-7/anything/else'', Body = []\<rparr>"
        and s = NewInMemoryTodoRepository and r = NewInMemoryTodoRepository
        and todo = "Todo_of 5 ''x''"]
      item_route_id [where n = 42 and rest = "''anything/else''" and seg = "''+5''"
        and k = 5 and dec = dec0 and repo = InMemory
        and req = "\<lparr>Method = ''GET'', Path = ''/todos/+5'', Body = []\<rparr>"
        and s = r5 and r = r5 and todo = "Todo_of 5 ''x''"]
      item_route_id [where n = 42 and rest = "''anything/else''" and seg = "''+5''"
        and k = 5 and dec = dec0 and repo = InMemory
        and req = "\<lparr>Method = ''PUT'', Path = ''/todos/+5'', Body = ''valid5''\<rparr>"
        and s = r5 and r = r5 and todo = "Todo_of 5 ''x''"]
    by (simp add: Atoi_examples dec0_def r5_def Exists_def NewInMemoryTodoRepository_def
        InMemory_sel GetByID_def Update_def TodoUseCase_UpdateTodo_def Validate_def Let_def)
qed

end
